theory Spec2Isabelle
  imports Complex_Main
begin

section \<open>Data model\<close>

text \<open>
  The resolvers of \<^verbatim>\<open>server/src/schemas/resolvers.ts\<close> work on three document collections
  (\<^verbatim>\<open>Product\<close>, \<^verbatim>\<open>User\<close>, \<^verbatim>\<open>Category\<close>) and on the payment client \<^verbatim>\<open>stripe\<close>.
  A collection is the list of its documents in the store's natural order. A stored
  identifier is the canonical string of its ObjectId (what \<^verbatim>\<open>toString()\<close> gives), and
  identifiers are compared by equality. The identifier arguments of the resolvers are taken
  to be in that form too, except in \<^verbatim>\<open>addBasketItem\<close>, which compares the raw argument
  with stored identifiers and so depends on the cast. Integers of the GraphQL schema
  (\<^verbatim>\<open>Int!\<close>) and counters are \<open>int\<close>; the JavaScript numbers that hold prices are
  represented by the rational value they denote; timestamps are milliseconds. The password
  of a user, which only \<^verbatim>\<open>login\<close> reads, and the identifiers of sub-documents are left
  out.
  Field names carry the initial of their document type, because a field name is a
  constant of the theory: \<open>p_stock\<close> is \<^verbatim>\<open>product.stock\<close>, \<open>u_basket\<close> is \<^verbatim>\<open>user.basket\<close>.
\<close>

type_synonym ident = string

type_synonym timestamp = nat

record review =
  r_username :: string
  r_review :: string
  r_rating :: int
  r_dateCreated :: timestamp

record product =
  p_id :: ident
  p_name :: string
  p_description :: string
  p_imageUrl :: string
  p_price :: rat
  p_stock :: int
  p_reviews :: "review list"
  p_onSale :: bool
  p_salePrice :: "rat option"

record ProductInput =
  pi_name :: string
  pi_description :: string
  pi_imageUrl :: string
  pi_price :: rat
  pi_stock :: int

record basket_item =
  b_product :: ident
  b_quantity :: int
  b_dateAdded :: timestamp

record order =
  o_products :: "ident list"
  o_purchaseDate :: timestamp

record user =
  u_id :: ident
  u_username :: string
  u_email :: string
  u_basket :: "basket_item list"
  u_orders :: "order list"

record category =
  c_id :: ident
  c_name :: string
  c_imageUrl :: string
  c_products :: "ident list"

record CategoryInput =
  ci_name :: string
  ci_imageUrl :: string

record database =
  Product_docs :: "product list"
  User_docs :: "user list"
  Category_docs :: "category list"

text \<open>
  The call context: \<^verbatim>\<open>context.user\<close> is the verified token payload
  \<^verbatim>\<open>{username, email, _id}\<close> or absent; \<^verbatim>\<open>context.headers\<close> are the request headers or
  absent, of which only \<^verbatim>\<open>referer\<close> is read.
\<close>

record auth_user =
  a_username :: string
  a_email :: string
  a_id :: ident

record headers =
  referer :: "string option"

record "context" =
  ctx_user :: "auth_user option"
  ctx_headers :: "headers option"

text \<open>
  What a resolver throws: a \<^verbatim>\<open>GraphQLError\<close> with its message and \<^verbatim>\<open>extensions.code\<close>, a
  plain \<^verbatim>\<open>Error\<close>, the \<^verbatim>\<open>TypeError\<close> of \<^verbatim>\<open>new URL\<close>, the \<^verbatim>\<open>CastError\<close> of a string that is
  no ObjectId (with the string), or the rejection of a request by the payment client. A resolver returns the database after the call together with either the
  error thrown or the value returned.
\<close>

datatype error =
    GraphQLError string string
  | Error string
  | TypeError string
  | CastError string
  | StripeError

definition forbiddenException :: error where
  "forbiddenException = GraphQLError ''You are not authorized to perform this action.'' ''FORBIDDEN''"

definition productNotFound :: error where
  "productNotFound = GraphQLError ''Product not found.'' ''NOT_FOUND''"

definition categoryNotFound :: error where
  "categoryNotFound = GraphQLError ''Category not found.'' ''NOT_FOUND''"

section \<open>The document store\<close>

text \<open>
  \<open>modify_first\<close> is the scan \<^verbatim>\<open>for (const item of xs) { if (P(item)) { ...; return } }\<close>:
  the first element that satisfies \<open>P\<close> is changed in place and the scan stops; \<open>None\<close>
  is the loop that ends without a match.
\<close>

fun modify_first :: "('a \<Rightarrow> bool) \<Rightarrow> ('a \<Rightarrow> 'a) \<Rightarrow> 'a list \<Rightarrow> 'a list option" where
  "modify_first P f [] = None"
| "modify_first P f (x # xs) =
     (if P x then Some (f x # xs)
      else (case modify_first P f xs of None \<Rightarrow> None | Some ys \<Rightarrow> Some (x # ys)))"

definition update_first :: "('a \<Rightarrow> bool) \<Rightarrow> ('a \<Rightarrow> 'a) \<Rightarrow> 'a list \<Rightarrow> 'a list" where
  "update_first P f xs = (case modify_first P f xs of None \<Rightarrow> xs | Some ys \<Rightarrow> ys)"

fun remove_first :: "('a \<Rightarrow> bool) \<Rightarrow> 'a list \<Rightarrow> 'a list" where
  "remove_first P [] = []"
| "remove_first P (x # xs) = (if P x then xs else x # remove_first P xs)"

definition Product_findById :: "database \<Rightarrow> ident \<Rightarrow> product option" where
  "Product_findById db i = find (\<lambda>p. p_id p = i) (Product_docs db)"

definition User_findById :: "database \<Rightarrow> ident \<Rightarrow> user option" where
  "User_findById db i = find (\<lambda>u. u_id u = i) (User_docs db)"

definition Category_findById :: "database \<Rightarrow> ident \<Rightarrow> category option" where
  "Category_findById db i = find (\<lambda>c. c_id c = i) (Category_docs db)"

text \<open>\<^verbatim>\<open>doc.save()\<close> writes the document back under its \<^verbatim>\<open>_id\<close>.\<close>

definition Product_save :: "database \<Rightarrow> product \<Rightarrow> database" where
  "Product_save db p =
     db\<lparr>Product_docs := update_first (\<lambda>q. p_id q = p_id p) (\<lambda>_. p) (Product_docs db)\<rparr>"

definition User_save :: "database \<Rightarrow> user \<Rightarrow> database" where
  "User_save db u =
     db\<lparr>User_docs := update_first (\<lambda>v. u_id v = u_id u) (\<lambda>_. u) (User_docs db)\<rparr>"

text \<open>\<^verbatim>\<open>Model.findByIdAndUpdate(id, update, { new: true })\<close> applies the update to the
  document with that \<^verbatim>\<open>_id\<close> and returns the updated document, or \<^verbatim>\<open>null\<close>.\<close>

definition Product_findByIdAndUpdate ::
  "database \<Rightarrow> ident \<Rightarrow> (product \<Rightarrow> product) \<Rightarrow> database" where
  "Product_findByIdAndUpdate db i f =
     db\<lparr>Product_docs := update_first (\<lambda>q. p_id q = i) f (Product_docs db)\<rparr>"

definition User_findByIdAndUpdate ::
  "database \<Rightarrow> ident \<Rightarrow> (user \<Rightarrow> user) \<Rightarrow> database \<times> user option" where
  "User_findByIdAndUpdate db i f =
     (let db' = db\<lparr>User_docs := update_first (\<lambda>v. u_id v = i) f (User_docs db)\<rparr>
      in (db', User_findById db' i))"

definition Category_findByIdAndUpdate ::
  "database \<Rightarrow> ident \<Rightarrow> (category \<Rightarrow> category) \<Rightarrow> database" where
  "Category_findByIdAndUpdate db i f =
     db\<lparr>Category_docs := update_first (\<lambda>c. c_id c = i) f (Category_docs db)\<rparr>"

section \<open>Catalog\<close>

definition addStock ::
  "context \<Rightarrow> ident \<Rightarrow> int \<Rightarrow> database \<Rightarrow> database \<times> (error + product)" where
  "addStock ctx productId quantity db =
     (case ctx_user ctx of
        None \<Rightarrow> (db, Inl forbiddenException)
      | Some _ \<Rightarrow>
          (case Product_findById db productId of
             None \<Rightarrow> (db, Inl productNotFound)
           | Some product \<Rightarrow>
               (let product' = product\<lparr>p_stock := p_stock product + quantity\<rparr>
                in (Product_save db product', Inr product'))))"

definition removeStock ::
  "context \<Rightarrow> ident \<Rightarrow> int \<Rightarrow> database \<Rightarrow> database \<times> (error + product)" where
  "removeStock ctx productId quantity db =
     (case ctx_user ctx of
        None \<Rightarrow> (db, Inl forbiddenException)
      | Some _ \<Rightarrow>
          (case Product_findById db productId of
             None \<Rightarrow> (db, Inl productNotFound)
           | Some product \<Rightarrow>
               (if p_stock product \<ge> quantity then
                  (let product' = product\<lparr>p_stock := p_stock product - quantity\<rparr>
                   in (Product_save db product', Inr product'))
                else (db, Inl (GraphQLError ''Insufficient stock.'' ''BAD_REQUEST'')))))"

text \<open>
  Modelled from the spec: the Product and Category schemas (\<^verbatim>\<open>models/\<close>) are not among the
  sources. \<^verbatim>\<open>Model.create(data)\<close> stores a new document with the fields of \<open>data\<close>
  (the \<^verbatim>\<open>ProductInput\<close> and \<^verbatim>\<open>CategoryInput\<close> of \<^verbatim>\<open>typeDefs.ts\<close>) under a fresh identifier,
  here the parameter \<open>new_id\<close> that the store generates; a new product has no reviews and
  is not on sale, a new category has no products.
\<close>

definition addProduct ::
  "context \<Rightarrow> ProductInput \<Rightarrow> ident \<Rightarrow> database \<Rightarrow> database \<times> (error + product)" where
  "addProduct ctx productData new_id db =
     (case ctx_user ctx of
        None \<Rightarrow> (db, Inl forbiddenException)
      | Some _ \<Rightarrow>
          (let product = \<lparr>p_id = new_id, p_name = pi_name productData,
                 p_description = pi_description productData,
                 p_imageUrl = pi_imageUrl productData, p_price = pi_price productData,
                 p_stock = pi_stock productData, p_reviews = [], p_onSale = False,
                 p_salePrice = None\<rparr>
           in (db\<lparr>Product_docs := Product_docs db @ [product]\<rparr>, Inr product)))"

text \<open>\<^verbatim>\<open>findByIdAndDelete\<close> removes the document and returns it, or \<^verbatim>\<open>null\<close>.\<close>

definition removeProduct ::
  "context \<Rightarrow> ident \<Rightarrow> database \<Rightarrow> database \<times> (error + product option)" where
  "removeProduct ctx productId db =
     (case ctx_user ctx of
        None \<Rightarrow> (db, Inl forbiddenException)
      | Some _ \<Rightarrow>
          (db\<lparr>Product_docs := remove_first (\<lambda>p. p_id p = productId) (Product_docs db)\<rparr>,
           Inr (Product_findById db productId)))"

definition addCategory ::
  "context \<Rightarrow> CategoryInput \<Rightarrow> ident \<Rightarrow> database \<Rightarrow> database \<times> (error + category)" where
  "addCategory ctx categoryData new_id db =
     (case ctx_user ctx of
        None \<Rightarrow> (db, Inl forbiddenException)
      | Some _ \<Rightarrow>
          (let category = \<lparr>c_id = new_id, c_name = ci_name categoryData,
                 c_imageUrl = ci_imageUrl categoryData, c_products = []\<rparr>
           in (db\<lparr>Category_docs := Category_docs db @ [category]\<rparr>, Inr category)))"

definition removeCategory ::
  "context \<Rightarrow> ident \<Rightarrow> database \<Rightarrow> database \<times> (error + category option)" where
  "removeCategory ctx categoryId db =
     (case ctx_user ctx of
        None \<Rightarrow> (db, Inl forbiddenException)
      | Some _ \<Rightarrow>
          (db\<lparr>Category_docs := remove_first (\<lambda>c. c_id c = categoryId) (Category_docs db)\<rparr>,
           Inr (Category_findById db categoryId)))"

text \<open>\<^verbatim>\<open>addProductToCategory\<close> returns the category as it was read, before the push.\<close>

definition addProductToCategory ::
  "context \<Rightarrow> ident \<Rightarrow> ident \<Rightarrow> database \<Rightarrow> database \<times> (error + category)" where
  "addProductToCategory ctx productId categoryId db =
     (case ctx_user ctx of
        None \<Rightarrow> (db, Inl forbiddenException)
      | Some _ \<Rightarrow>
          (case Category_findById db categoryId of
             None \<Rightarrow> (db, Inl categoryNotFound)
           | Some category \<Rightarrow>
               (case Product_findById db productId of
                  None \<Rightarrow> (db, Inl productNotFound)
                | Some product \<Rightarrow>
                    (Category_findByIdAndUpdate db categoryId
                       (\<lambda>c. c\<lparr>c_products := c_products c @ [productId]\<rparr>),
                     Inr category))))"

section \<open>Reviews\<close>

text \<open>
  The scan \<^verbatim>\<open>for (const item of product.reviews) if (item.username === username) ...\<close>
  of \<^verbatim>\<open>addReview\<close>: whether some review carries the caller's username.
\<close>

fun already_reviewed :: "string \<Rightarrow> review list \<Rightarrow> bool" where
  "already_reviewed u [] = False"
| "already_reviewed u (item # rest) = (if r_username item = u then True else already_reviewed u rest)"

text \<open>
  Modelled from the spec: the review sub-schema (\<^verbatim>\<open>models/Product\<close>) is not among the
  sources. \<^verbatim>\<open>addReview\<close> pushes \<^verbatim>\<open>{review, rating, username}\<close>; the schema gives the new
  review its creation timestamp (``appends a new Review with a fresh identifier and
  current timestamp''), here the time \<open>now\<close> of the call. The sub-document identifier,
  which no resolver reads, is left out.
\<close>

definition new_review :: "string \<Rightarrow> string \<Rightarrow> int \<Rightarrow> timestamp \<Rightarrow> review" where
  "new_review u review rating now =
     \<lparr>r_username = u, r_review = review, r_rating = rating, r_dateCreated = now\<rparr>"

text \<open>\<^verbatim>\<open>addReview\<close> returns the product as it was read, before the push.\<close>

definition addReview ::
  "context \<Rightarrow> ident \<Rightarrow> string \<Rightarrow> int \<Rightarrow> timestamp \<Rightarrow> database \<Rightarrow> database \<times> (error + product)" where
  "addReview ctx productId review rating now db =
     (case ctx_user ctx of
        None \<Rightarrow> (db, Inl forbiddenException)
      | Some cu \<Rightarrow>
          (case Product_findById db productId of
             None \<Rightarrow> (db, Inl productNotFound)
           | Some product \<Rightarrow>
               (if already_reviewed (a_username cu) (p_reviews product)
                then (db, Inl (GraphQLError ''You have already reviewed this product.'' ''FORBIDDEN''))
                else (Product_findByIdAndUpdate db productId
                        (\<lambda>p. p\<lparr>p_reviews := p_reviews p @ [new_review (a_username cu) review rating now]\<rparr>),
                      Inr product))))"

text \<open>
  \<^verbatim>\<open>editReview\<close> overwrites \<^verbatim>\<open>item.review\<close> and \<^verbatim>\<open>item.rating\<close> of the first review by the
  caller and saves the product; when the loop ends without a match, control reaches the
  \<^verbatim>\<open>throw forbiddenException\<close> at the end of the resolver.
\<close>

definition editReview ::
  "context \<Rightarrow> ident \<Rightarrow> string \<Rightarrow> int \<Rightarrow> database \<Rightarrow> database \<times> (error + product)" where
  "editReview ctx productId review rating db =
     (case ctx_user ctx of
        None \<Rightarrow> (db, Inl forbiddenException)
      | Some cu \<Rightarrow>
          (case Product_findById db productId of
             None \<Rightarrow> (db, Inl productNotFound)
           | Some product \<Rightarrow>
               (case modify_first (\<lambda>item. r_username item = a_username cu)
                       (\<lambda>item. item\<lparr>r_review := review, r_rating := rating\<rparr>) (p_reviews product) of
                  None \<Rightarrow> (db, Inl forbiddenException)
                | Some reviews' \<Rightarrow>
                    (let product' = product\<lparr>p_reviews := reviews'\<rparr>
                     in (Product_save db product', Inr product')))))"

section \<open>Basket\<close>

text \<open>
  Modelled from the spec: the basket sub-schema (\<^verbatim>\<open>models/User\<close>) is not among the sources.
  \<^verbatim>\<open>addBasketItem\<close> pushes \<^verbatim>\<open>{product, quantity}\<close>; the schema gives the new line its
  \<^verbatim>\<open>dateAdded\<close> (``appends a new BasketItem(productId, qty, now)''), here the time \<open>now\<close>
  of the call.
\<close>

definition new_basket_item :: "ident \<Rightarrow> int \<Rightarrow> timestamp \<Rightarrow> basket_item" where
  "new_basket_item productId quantity now =
     \<lparr>b_product = productId, b_quantity = quantity, b_dateAdded = now\<rparr>"

text \<open>
  \<^verbatim>\<open>addBasketItem\<close> uses its argument \<^verbatim>\<open>productId\<close> in three ways. \<^verbatim>\<open>Product.findById(productId)\<close>
  and the push of \<^verbatim>\<open>{product: productId, quantity}\<close> go through the cast of the string to
  an ObjectId, which the store library performs: the parameter \<open>castObjectId\<close> gives the
  canonical string of that ObjectId, or \<open>None\<close> where the cast throws. The loop over
  \<^verbatim>\<open>user.basket\<close> compares the raw string: \<^verbatim>\<open>item.product.toString() === productId\<close>. It
  adds the quantity to the first line that matches, saves and returns; when it ends
  without a match the new line is pushed. When the user document is missing, control
  reaches the final \<^verbatim>\<open>throw forbiddenException\<close>.
\<close>

definition addBasketItem ::
  "(string \<Rightarrow> ident option) \<Rightarrow> context \<Rightarrow> string \<Rightarrow> int \<Rightarrow> timestamp \<Rightarrow> database
   \<Rightarrow> database \<times> (error + user option)" where
  "addBasketItem castObjectId ctx productId quantity now db =
     (case ctx_user ctx of
        None \<Rightarrow> (db, Inl forbiddenException)
      | Some cu \<Rightarrow>
          (case castObjectId productId of
             None \<Rightarrow> (db, Inl (CastError productId))
           | Some oid \<Rightarrow>
               (case Product_findById db oid of
                  None \<Rightarrow> (db, Inl productNotFound)
                | Some product \<Rightarrow>
                    (case User_findById db (a_id cu) of
                       None \<Rightarrow> (db, Inl forbiddenException)
                     | Some user \<Rightarrow>
                         (case modify_first (\<lambda>item. b_product item = productId)
                                 (\<lambda>item. item\<lparr>b_quantity := b_quantity item + quantity\<rparr>)
                                 (u_basket user) of
                            Some basket' \<Rightarrow>
                              (let user' = user\<lparr>u_basket := basket'\<rparr>
                               in (User_save db user', Inr (Some user')))
                          | None \<Rightarrow>
                              (case User_findByIdAndUpdate db (a_id cu)
                                      (\<lambda>u. u\<lparr>u_basket := u_basket u
                                             @ [new_basket_item oid quantity now]\<rparr>) of
                                 (db', updated) \<Rightarrow> (db', Inr updated)))))))"

text \<open>\<^verbatim>\<open>{ $pull: { basket: { product: productId } } }\<close> removes every line of the product.\<close>

definition pull_basket :: "ident \<Rightarrow> user \<Rightarrow> user" where
  "pull_basket productId u = u\<lparr>u_basket := filter (\<lambda>item. b_product item \<noteq> productId) (u_basket u)\<rparr>"

text \<open>
  \<^verbatim>\<open>removeBasketItem\<close> and \<^verbatim>\<open>decrementBasketItem\<close>: the loop returns at the first line of
  the product; when it ends without a match (the \<^verbatim>\<open>return user\<close> after it is commented
  out in the source) control reaches the final \<^verbatim>\<open>throw forbiddenException\<close>.
\<close>

definition removeBasketItem ::
  "context \<Rightarrow> ident \<Rightarrow> database \<Rightarrow> database \<times> (error + user option)" where
  "removeBasketItem ctx productId db =
     (case ctx_user ctx of
        None \<Rightarrow> (db, Inl forbiddenException)
      | Some cu \<Rightarrow>
          (case Product_findById db productId of
             None \<Rightarrow> (db, Inl productNotFound)
           | Some product \<Rightarrow>
               (case User_findById db (a_id cu) of
                  None \<Rightarrow> (db, Inl forbiddenException)
                | Some user \<Rightarrow>
                    (case find (\<lambda>item. b_product item = productId) (u_basket user) of
                       Some item \<Rightarrow>
                         (case User_findByIdAndUpdate db (a_id cu) (pull_basket productId) of
                            (db', updated) \<Rightarrow> (db', Inr updated))
                     | None \<Rightarrow> (db, Inl forbiddenException)))))"

definition decrementBasketItem ::
  "context \<Rightarrow> ident \<Rightarrow> database \<Rightarrow> database \<times> (error + user option)" where
  "decrementBasketItem ctx productId db =
     (case ctx_user ctx of
        None \<Rightarrow> (db, Inl forbiddenException)
      | Some cu \<Rightarrow>
          (case Product_findById db productId of
             None \<Rightarrow> (db, Inl productNotFound)
           | Some product \<Rightarrow>
               (case User_findById db (a_id cu) of
                  None \<Rightarrow> (db, Inl forbiddenException)
                | Some user \<Rightarrow>
                    (case find (\<lambda>item. b_product item = productId) (u_basket user) of
                       Some item \<Rightarrow>
                         (if b_quantity item > 1 then
                            (let user' = user\<lparr>u_basket :=
                                   update_first (\<lambda>item. b_product item = productId)
                                     (\<lambda>item. item\<lparr>b_quantity := b_quantity item - 1\<rparr>)
                                     (u_basket user)\<rparr>
                             in (User_save db user', Inr (Some user')))
                          else
                            (case User_findByIdAndUpdate db (a_id cu) (pull_basket productId) of
                               (db', updated) \<Rightarrow> (db', Inr updated)))
                     | None \<Rightarrow> (db, Inl forbiddenException)))))"

definition clearBasket :: "context \<Rightarrow> database \<Rightarrow> database \<times> (error + user option)" where
  "clearBasket ctx db =
     (case ctx_user ctx of
        None \<Rightarrow> (db, Inl forbiddenException)
      | Some cu \<Rightarrow>
          (case User_findByIdAndUpdate db (a_id cu) (\<lambda>u. u\<lparr>u_basket := []\<rparr>) of
             (db', updated) \<Rightarrow> (db', Inr updated)))"

section \<open>Checkout\<close>

text \<open>
  The payment client. \<^verbatim>\<open>checkout\<close> sends three kinds of request: \<^verbatim>\<open>stripe.products.create\<close>
  (name, description, images), \<^verbatim>\<open>stripe.prices.create\<close> (product, unit_amount, currency) and
  \<^verbatim>\<open>stripe.checkout.sessions.create\<close> (payment_method_types, line_items, mode, success_url,
  cancel_url). The client is a parameter of the resolver: given the requests sent so far
  and a request, it answers with an object (of which \<^verbatim>\<open>id\<close> and, for a session, \<^verbatim>\<open>url\<close> are
  read) or rejects the request, and the \<^verbatim>\<open>await\<close> throws. The resolver returns the list of
  requests it has sent beside the database and the outcome. A line item's quantity is
  the lookup \<^verbatim>\<open>productQuantities[product._id.toString()]\<close>, \<open>None\<close> when that is
  \<^verbatim>\<open>undefined\<close>.
\<close>

record line_item =
  li_price :: string
  li_quantity :: "int option"

datatype stripe_call =
    products_create string string "string list"
  | prices_create string int string
  | sessions_create "string list" "line_item list" string string string

record stripe_object =
  so_id :: string
  so_url :: string

type_synonym stripe = "stripe_call list \<Rightarrow> stripe_call \<Rightarrow> stripe_object option"

record checkout_result =
  cr_sessionId :: string
  cr_url :: string

text \<open>
  \<^verbatim>\<open>new URL(s).origin\<close>: the URL parser of the platform is the parameter \<open>parse\<close>, which
  gives the origin of an absolute URL and \<open>None\<close> where \<^verbatim>\<open>new URL\<close> throws its
  \<^verbatim>\<open>TypeError\<close>; it always throws on the empty string. \<^verbatim>\<open>checkout\<close> computes
  \<^verbatim>\<open>url\<close> first, when the context has headers, from \<^verbatim>\<open>context.headers.referer || ""\<close>; without
  headers \<^verbatim>\<open>url\<close> stays \<^verbatim>\<open>undefined\<close> and the template strings print it as such.
\<close>

definition URL_origin :: "(string \<Rightarrow> string option) \<Rightarrow> string \<Rightarrow> error + string" where
  "URL_origin parse s =
     (if s = [] then Inl (TypeError ''Invalid URL'')
      else (case parse s of
              None \<Rightarrow> Inl (TypeError ''Invalid URL'')
            | Some origin \<Rightarrow> Inr origin))"

definition checkout_url :: "(string \<Rightarrow> string option) \<Rightarrow> context \<Rightarrow> error + string option" where
  "checkout_url parse ctx =
     (case ctx_headers ctx of
        None \<Rightarrow> Inr None
      | Some h \<Rightarrow>
          (case URL_origin parse (case referer h of None \<Rightarrow> [] | Some r \<Rightarrow> r) of
             Inl e \<Rightarrow> Inl e
           | Inr origin \<Rightarrow> Inr (Some origin)))"

definition template_url :: "string option \<Rightarrow> string" where
  "template_url url = (case url of None \<Rightarrow> ''undefined'' | Some u \<Rightarrow> u)"

text \<open>
  The quantity manifest \<^verbatim>\<open>productQuantities\<close>: an object, here the list of its own
  properties in insertion order. One step of the \<^verbatim>\<open>forEach\<close> is
  \<^verbatim>\<open>productQuantities[productId] = (productQuantities[productId] || 0) + 1\<close>, where
  \<^verbatim>\<open>n || 0\<close> is \<open>n\<close> for every number \<open>n\<close> and \<open>0\<close> for a missing property; the keys
  (\<^verbatim>\<open>Object.keys\<close>) are only used as the set of the \<^verbatim>\<open>$in\<close> query, which returns the matching
  documents in the order of the collection.
\<close>

definition count_step :: "(ident \<times> int) list \<Rightarrow> ident \<Rightarrow> (ident \<times> int) list" where
  "count_step productQuantities productId =
     (case map_of productQuantities productId of
        None \<Rightarrow> productQuantities @ [(productId, 0 + 1)]
      | Some n \<Rightarrow>
          map (\<lambda>(k, v). if k = productId then (k, n + 1) else (k, v)) productQuantities)"

definition productQuantities_of :: "ident list \<Rightarrow> (ident \<times> int) list" where
  "productQuantities_of products = foldl count_step [] products"

definition Product_find_in :: "database \<Rightarrow> ident list \<Rightarrow> product list" where
  "Product_find_in db productIds = filter (\<lambda>p. p_id p \<in> set productIds) (Product_docs db)"

text \<open>
  \<^verbatim>\<open>product.onSale && product.salePrice ? product.salePrice : product.price\<close>: the sale
  price is used when \<^verbatim>\<open>onSale\<close> is set and \<^verbatim>\<open>salePrice\<close> is truthy, that is present and not
  zero.
\<close>

definition finalPrice :: "product \<Rightarrow> rat" where
  "finalPrice product =
     (case p_salePrice product of
        None \<Rightarrow> p_price product
      | Some salePrice \<Rightarrow>
          if p_onSale product \<and> salePrice \<noteq> 0 then salePrice else p_price product)"

text \<open>
  The loop over the products found, with the requests sent and the line items so far. The
  unit amount of a price is \<^verbatim>\<open>Math.round(finalPrice * 100)\<close>, computed in floating point: the
  parameter \<open>unit_amount\<close> is that computation, the function that takes the number
  \<open>x\<close> to \<^verbatim>\<open>Math.round(x * 100)\<close>. Floating-point arithmetic is not modelled, and nothing
  is assumed of \<open>unit_amount\<close>.
\<close>

fun line_items_loop ::
  "(rat \<Rightarrow> int) \<Rightarrow> stripe \<Rightarrow> (ident \<times> int) list \<Rightarrow> product list \<Rightarrow> stripe_call list \<Rightarrow> line_item list
   \<Rightarrow> stripe_call list \<times> (error + line_item list)" where
  "line_items_loop unit_amount stripe productQuantities [] sent line_items = (sent, Inr line_items)"
| "line_items_loop unit_amount stripe productQuantities (product # rest) sent line_items =
     (let quantity = map_of productQuantities (p_id product);
          create_product = products_create (p_name product) (p_description product)
                             [p_imageUrl product]
      in case stripe sent create_product of
           None \<Rightarrow> (sent @ [create_product], Inl StripeError)
         | Some stripeProduct \<Rightarrow>
             (let create_price = prices_create (so_id stripeProduct)
                                   (unit_amount (finalPrice product)) ''usd''
              in case stripe (sent @ [create_product]) create_price of
                   None \<Rightarrow> (sent @ [create_product, create_price], Inl StripeError)
                 | Some price \<Rightarrow>
                     line_items_loop unit_amount stripe productQuantities rest
                       (sent @ [create_product, create_price])
                       (line_items @ [\<lparr>li_price = so_id price, li_quantity = quantity\<rparr>])))"

text \<open>
  \<^verbatim>\<open>checkout\<close>, in the order of the source: the URL, the authentication check, the order
  pushed and saved when the user document exists, the manifest, the products, the
  requests for each product, the session.
\<close>

definition checkout ::
  "(string \<Rightarrow> string option) \<Rightarrow> (rat \<Rightarrow> int) \<Rightarrow> stripe \<Rightarrow> timestamp \<Rightarrow> context \<Rightarrow> ident list \<Rightarrow> database
   \<Rightarrow> database \<times> stripe_call list \<times> (error + checkout_result)" where
  "checkout parse unit_amount stripe now ctx products db =
     (case checkout_url parse ctx of
        Inl e \<Rightarrow> (db, [], Inl e)
      | Inr url \<Rightarrow>
          (case ctx_user ctx of
             None \<Rightarrow> (db, [], Inl (Error ''User not authenticated''))
           | Some cu \<Rightarrow>
               (let order = \<lparr>o_products = products, o_purchaseDate = now\<rparr>;
                    db1 = (case User_findById db (a_id cu) of
                             None \<Rightarrow> db
                           | Some user \<Rightarrow> User_save db (user\<lparr>u_orders := u_orders user @ [order]\<rparr>));
                    productQuantities = productQuantities_of (o_products order);
                    productIds = map fst productQuantities;
                    found = Product_find_in db1 productIds
                in case line_items_loop unit_amount stripe productQuantities found [] [] of
                     (sent, Inl e) \<Rightarrow> (db1, sent, Inl e)
                   | (sent, Inr line_items) \<Rightarrow>
                       (let create_session = sessions_create [''card''] line_items ''payment''
                              (template_url url @ ''/success?session_id={CHECKOUT_SESSION_ID}'')
                              (template_url url @ ''/cart'')
                        in case stripe sent create_session of
                             None \<Rightarrow> (db1, sent @ [create_session], Inl StripeError)
                           | Some session \<Rightarrow>
                               (db1, sent @ [create_session],
                                Inr \<lparr>cr_sessionId = so_id session, cr_url = so_url session\<rparr>)))))"

section \<open>Sequences of calls\<close>

text \<open>
  Sequences of stock calls: each call is a request of its own, with its own context; a call
  that throws leaves the database as it was.
\<close>

datatype stock_call = AddStock "context" ident int | RemoveStock "context" ident int

fun stock_call_step :: "database \<Rightarrow> stock_call \<Rightarrow> database" where
  "stock_call_step db (AddStock ctx productId quantity) = fst (addStock ctx productId quantity db)"
| "stock_call_step db (RemoveStock ctx productId quantity) = fst (removeStock ctx productId quantity db)"

definition run_stock_calls :: "database \<Rightarrow> stock_call list \<Rightarrow> database" where
  "run_stock_calls db calls = foldl stock_call_step db calls"

definition stock_nonneg :: "database \<Rightarrow> bool" where
  "stock_nonneg db = list_all (\<lambda>p. 0 \<le> p_stock p) (Product_docs db)"

fun adds_nonneg :: "stock_call \<Rightarrow> bool" where
  "adds_nonneg (AddStock ctx productId quantity) = (0 \<le> quantity)"
| "adds_nonneg (RemoveStock ctx productId quantity) = True"

text \<open>Sequences of \<^verbatim>\<open>addBasketItem\<close> calls, each with its context, arguments and time.\<close>

type_synonym basket_add = "context \<times> ident \<times> int \<times> timestamp"

fun basket_add_step :: "(string \<Rightarrow> ident option) \<Rightarrow> database \<Rightarrow> basket_add \<Rightarrow> database" where
  "basket_add_step castObjectId db (ctx, productId, quantity, now) =
     fst (addBasketItem castObjectId ctx productId quantity now db)"

definition run_basket_adds ::
  "(string \<Rightarrow> ident option) \<Rightarrow> database \<Rightarrow> basket_add list \<Rightarrow> database" where
  "run_basket_adds castObjectId db calls = foldl (basket_add_step castObjectId) db calls"

text \<open>An argument is in canonical form when the cast, if it succeeds, gives it back.\<close>

definition canonical :: "(string \<Rightarrow> ident option) \<Rightarrow> string \<Rightarrow> bool" where
  "canonical castObjectId productId =
     (case castObjectId productId of None \<Rightarrow> True | Some oid \<Rightarrow> oid = productId)"

fun canonical_add :: "(string \<Rightarrow> ident option) \<Rightarrow> basket_add \<Rightarrow> bool" where
  "canonical_add castObjectId (ctx, productId, quantity, now) = canonical castObjectId productId"

definition basket_lines_unique :: "database \<Rightarrow> bool" where
  "basket_lines_unique db = list_all (\<lambda>u. distinct (map b_product (u_basket u))) (User_docs db)"

section \<open>Sample data\<close>

text \<open>A small shop, on which the theorems are instantiated: two products, of which the
  first is on sale and carries a review by bob; two registered users, alice with an empty
  basket and carol with one line; and the call contexts of signed-in requests and of an
  anonymous request that carries no \<^verbatim>\<open>referer\<close>. Bob is signed in and has no user
  document.\<close>

definition alice :: auth_user where
  "alice = \<lparr>a_username = ''alice'', a_email = ''alice@shop.example'', a_id = ''u1''\<rparr>"

definition signed_in :: "context" where
  "signed_in = \<lparr>ctx_user = Some alice,
                 ctx_headers = Some \<lparr>referer = Some ''https://shop.example/cart''\<rparr>\<rparr>"

definition anonymous :: "context" where
  "anonymous = \<lparr>ctx_user = None, ctx_headers = Some \<lparr>referer = None\<rparr>\<rparr>"

definition bob_review :: review where
  "bob_review = \<lparr>r_username = ''bob'', r_review = ''fine'', r_rating = 4, r_dateCreated = 100\<rparr>"

definition widget :: product where
  "widget = \<lparr>p_id = ''p1'', p_name = ''Widget'', p_description = ''A widget'',
              p_imageUrl = ''widget.png'', p_price = 10, p_stock = 3, p_reviews = [bob_review],
              p_onSale = True, p_salePrice = Some 8\<rparr>"

definition gadget :: product where
  "gadget = \<lparr>p_id = ''p2'', p_name = ''Gadget'', p_description = ''A gadget'',
              p_imageUrl = ''gadget.png'', p_price = 25, p_stock = 0, p_reviews = [],
              p_onSale = False, p_salePrice = None\<rparr>"

definition alice_doc :: user where
  "alice_doc = \<lparr>u_id = ''u1'', u_username = ''alice'', u_email = ''alice@shop.example'',
                 u_basket = [], u_orders = []\<rparr>"

definition carol :: auth_user where
  "carol = \<lparr>a_username = ''carol'', a_email = ''carol@shop.example'', a_id = ''u3''\<rparr>"

definition carol_signed_in :: "context" where
  "carol_signed_in = \<lparr>ctx_user = Some carol,
                       ctx_headers = Some \<lparr>referer = Some ''https://shop.example/''\<rparr>\<rparr>"

definition carol_doc :: user where
  "carol_doc = \<lparr>u_id = ''u3'', u_username = ''carol'', u_email = ''carol@shop.example'',
                 u_basket = [\<lparr>b_product = ''p2'', b_quantity = 2, b_dateAdded = 50\<rparr>],
                 u_orders = []\<rparr>"

definition shop :: database where
  "shop = \<lparr>Product_docs = [widget, gadget], User_docs = [alice_doc, carol_doc],
            Category_docs = []\<rparr>"

definition bob :: auth_user where
  "bob = \<lparr>a_username = ''bob'', a_email = ''bob@shop.example'', a_id = ''u2''\<rparr>"

definition bob_signed_in :: "context" where
  "bob_signed_in = \<lparr>ctx_user = Some bob, ctx_headers = None\<rparr>"

text \<open>Sample collaborators: a URL parser that knows the shop's pages, a payment client that
  accepts every request and numbers its objects by the requests seen, one that rejects
  session creation, and a catalog whose first product is on sale at price zero.\<close>

definition sample_parse :: "string \<Rightarrow> string option" where
  "sample_parse s =
     (if s = ''https://shop.example/cart'' \<or> s = ''https://shop.example/''
      then Some ''https://shop.example'' else None)"

definition stripe_ok :: stripe where
  "stripe_ok sent c =
     Some \<lparr>so_id = (case c of products_create _ _ _ \<Rightarrow> ''prod_''
                     | prices_create _ _ _ \<Rightarrow> ''price_''
                     | sessions_create _ _ _ _ _ \<Rightarrow> ''cs_'') @ replicate (length sent) CHR ''i'',
           so_url = ''https://pay.example/session''\<rparr>"

text \<open>On whole prices of moderate size the floating-point product \<^verbatim>\<open>x * 100\<close> is exact and
  \<^verbatim>\<open>Math.round\<close> leaves it: the sample stands for \<open>unit_amount\<close> on the sample catalog, whose
  prices are whole.\<close>

definition sample_unit_amount :: "rat \<Rightarrow> int" where
  "sample_unit_amount x = 100 * \<lfloor>x\<rfloor>"

text \<open>A payment client that rejects every request, and alice's context for a request whose
  headers carry no \<^verbatim>\<open>referer\<close>.\<close>

definition stripe_down :: stripe where
  "stripe_down sent c = None"

definition signed_in_no_referer :: "context" where
  "signed_in_no_referer = \<lparr>ctx_user = Some alice, ctx_headers = Some \<lparr>referer = None\<rparr>\<rparr>"

text \<open>A cast for the samples: a string of 24 hexadecimal digits, in either case, names an
  ObjectId, whose canonical string has the letters in lower case; no other string does.
  The lamp is a product under such an identifier.\<close>

definition hex_lower :: "char \<Rightarrow> char" where
  "hex_lower c = (case map_of (zip ''ABCDEF'' ''abcdef'') c of None \<Rightarrow> c | Some d \<Rightarrow> d)"

definition sample_castObjectId :: "string \<Rightarrow> ident option" where
  "sample_castObjectId s =
     (if length s = 24 \<and> list_all (\<lambda>c. c \<in> set ''0123456789abcdefABCDEF'') s
      then Some (map hex_lower s) else None)"

definition lamp :: product where
  "lamp = \<lparr>p_id = ''64b7f0c2a1d3e4f5a6b7c8d9'', p_name = ''Lamp'', p_description = ''A lamp'',
            p_imageUrl = ''lamp.png'', p_price = 40, p_stock = 7, p_reviews = [],
            p_onSale = False, p_salePrice = None\<rparr>"

definition lamp_shop :: database where
  "lamp_shop = shop\<lparr>Product_docs := [lamp]\<rparr>"

definition freebie :: product where
  "freebie = widget\<lparr>p_salePrice := Some 0\<rparr>"

definition clearance :: database where
  "clearance = shop\<lparr>Product_docs := [freebie, gadget]\<rparr>"

definition stripe_sessions_down :: stripe where
  "stripe_sessions_down sent c =
     (case c of sessions_create _ _ _ _ _ \<Rightarrow> None | _ \<Rightarrow> stripe_ok sent c)"

lemmas sample_defs =
  alice_def signed_in_def anonymous_def bob_review_def widget_def gadget_def alice_doc_def
  carol_def carol_signed_in_def carol_doc_def shop_def

section \<open>Facts about the store\<close>

lemma modify_first_None: "modify_first P f xs = None \<longleftrightarrow> find P xs = None"
  by (induction xs) (auto split: option.splits)

lemma find_update_first:
  assumes "\<And>x. P x \<Longrightarrow> P (f x)"
  shows "find P (update_first P f xs) = map_option f (find P xs)"
  using assms
  by (induction xs) (auto simp: update_first_def split: option.splits)

lemma find_update_first_other:
  assumes "\<And>x. P x \<Longrightarrow> \<not> Q x" and "\<And>x. P x \<Longrightarrow> \<not> Q (f x)"
  shows "find Q (update_first P f xs) = find Q xs"
  using assms
  by (induction xs) (auto simp: update_first_def split: option.splits)

lemma find_Some_id: "find P xs = Some x \<Longrightarrow> P x"
  by (induction xs) (auto split: if_splits)

lemma Product_findById_save:
  "Product_findById db (p_id p) = Some q \<Longrightarrow> Product_findById (Product_save db p) (p_id p) = Some p"
  by (simp add: Product_findById_def Product_save_def find_update_first)

lemma Product_findById_id: "Product_findById db i = Some p \<Longrightarrow> p_id p = i"
  by (auto simp: Product_findById_def dest: find_Some_id)

lemma find_Some_set: "find P xs = Some x \<Longrightarrow> x \<in> set xs"
  by (induction xs) (auto split: if_splits)

lemma list_all_update_first:
  assumes "list_all P xs" and "\<And>x. x \<in> set xs \<Longrightarrow> Q x \<Longrightarrow> P (f x)"
  shows "list_all P (update_first Q f xs)"
  using assms
  by (induction xs) (auto simp: update_first_def split: option.splits)

lemma modify_first_Some_index:
  "modify_first P f xs = Some ys \<Longrightarrow>
     \<exists>i<length xs. P (xs ! i) \<and> (\<forall>j<i. \<not> P (xs ! j)) \<and> ys = xs[i := f (xs ! i)]"
proof (induction xs arbitrary: ys)
  case Nil
  then show ?case by simp
next
  case (Cons x xs)
  show ?case
  proof (cases "P x")
    case True
    with Cons.prems have "ys = (x # xs)[0 := f ((x # xs) ! 0)]" by simp
    with True show ?thesis by (intro exI [of _ 0]) simp
  next
    case False
    with Cons.prems obtain zs where zs: "modify_first P f xs = Some zs" "ys = x # zs"
      by (auto split: option.splits)
    from Cons.IH [OF zs(1)] obtain i where i: "i < length xs" "P (xs ! i)"
      "\<forall>j<i. \<not> P (xs ! j)" "zs = xs[i := f (xs ! i)]" by blast
    have "\<forall>j<Suc i. \<not> P ((x # xs) ! j)"
      using False i(3) by (auto simp: less_Suc_eq_0_disj)
    with i zs(2) show ?thesis by (intro exI [of _ "Suc i"]) simp
  qed
qed

lemma list_all_update_first_found:
  assumes "list_all P xs" and "\<And>x. find Q xs = Some x \<Longrightarrow> P (f x)"
  shows "list_all P (update_first Q f xs)"
  using assms
  by (induction xs) (auto simp: update_first_def split: option.splits)

lemma modify_first_map:
  assumes "modify_first P f xs = Some ys" and "\<And>x. g (f x) = g x"
  shows "map g ys = map g xs"
  using assms
  by (induction xs arbitrary: ys) (auto split: if_splits option.splits)

lemma modify_first_snoc:
  "find P xs = None \<Longrightarrow> P x \<Longrightarrow> modify_first P f (xs @ [x]) = Some (xs @ [f x])"
  by (induction xs) (auto split: if_splits)

lemma find_None_not_in: "find P xs = None \<longleftrightarrow> (\<forall>x\<in>set xs. \<not> P x)"
  by (induction xs) auto

lemma User_findById_id: "User_findById db i = Some u \<Longrightarrow> u_id u = i"
  by (auto simp: User_findById_def dest: find_Some_id)

lemma User_findById_save:
  "User_findById db (u_id u) = Some v \<Longrightarrow> User_findById (User_save db u) (u_id u) = Some u"
  by (simp add: User_findById_def User_save_def find_update_first)

lemma User_findByIdAndUpdate_found:
  assumes "User_findById db i = Some u" and "\<And>v. u_id (f v) = u_id v"
  shows "User_findByIdAndUpdate db i f = (db\<lparr>User_docs := update_first (\<lambda>v. u_id v = i) f (User_docs db)\<rparr>, Some (f u))"
  using assms
  by (simp add: User_findByIdAndUpdate_def User_findById_def Let_def find_update_first)

section \<open>Stock\<close>

text \<open>
  C2. For an authenticated caller and an existing product, \<^verbatim>\<open>removeStock\<close> with a quantity
  strictly greater than the current stock throws the \<^verbatim>\<open>Insufficient stock.\<close> error and
  leaves the database as it was; with a quantity at most the current stock it stores
  \<open>stock - quantity\<close> and returns the product.
\<close>

theorem removeStock_insufficient_or_decrement:
  assumes "ctx_user ctx = Some cu"
    and "Product_findById db productId = Some product"
  shows "(if quantity > p_stock product
          then removeStock ctx productId quantity db =
                 (db, Inl (GraphQLError ''Insufficient stock.'' ''BAD_REQUEST''))
          else removeStock ctx productId quantity db =
                 (Product_save db (product\<lparr>p_stock := p_stock product - quantity\<rparr>),
                  Inr (product\<lparr>p_stock := p_stock product - quantity\<rparr>))
             \<and> Product_findById (fst (removeStock ctx productId quantity db)) productId =
                 Some (product\<lparr>p_stock := p_stock product - quantity\<rparr>))"
proof -
  have pid: "p_id product = productId"
    using assms(2) by (rule Product_findById_id)
  have "Product_findById (Product_save db (product\<lparr>p_stock := p_stock product - quantity\<rparr>))
          (p_id (product\<lparr>p_stock := p_stock product - quantity\<rparr>))
        = Some (product\<lparr>p_stock := p_stock product - quantity\<rparr>)"
    by (rule Product_findById_save [where q = product]) (simp add: pid assms(2))
  then show ?thesis
    using assms pid by (simp add: removeStock_def Let_def)
qed

theorem removeStock_insufficient_or_decrement_witness:
  "ctx_user signed_in = Some alice \<and> Product_findById shop ''p1'' = Some widget
   \<and> removeStock signed_in ''p1'' 5 shop =
        (shop, Inl (GraphQLError ''Insufficient stock.'' ''BAD_REQUEST''))
   \<and> Product_findById (fst (removeStock signed_in ''p1'' 2 shop)) ''p1'' =
        Some (widget\<lparr>p_stock := 1\<rparr>)"
proof -
  have h1: "ctx_user signed_in = Some alice"
    by (simp add: signed_in_def)
  have h2: "Product_findById shop ''p1'' = Some widget"
    by (simp add: Product_findById_def shop_def widget_def)
  have s: "p_stock widget = 3"
    by (simp add: widget_def)
  have a: "removeStock signed_in ''p1'' 5 shop =
        (shop, Inl (GraphQLError ''Insufficient stock.'' ''BAD_REQUEST''))"
    using removeStock_insufficient_or_decrement [OF h1 h2, of 5] by (simp add: s)
  have b: "Product_findById (fst (removeStock signed_in ''p1'' 2 shop)) ''p1'' =
        Some (widget\<lparr>p_stock := 1\<rparr>)"
    using removeStock_insufficient_or_decrement [OF h1 h2, of 2] by (auto simp: s)
  from h1 h2 a b show ?thesis by blast
qed

lemma stock_nonneg_save:
  "stock_nonneg db \<Longrightarrow> 0 \<le> p_stock p \<Longrightarrow> stock_nonneg (Product_save db p)"
  by (simp add: stock_nonneg_def Product_save_def list_all_update_first)

lemma stock_nonneg_found:
  "stock_nonneg db \<Longrightarrow> Product_findById db i = Some p \<Longrightarrow> 0 \<le> p_stock p"
  by (auto simp: stock_nonneg_def Product_findById_def list_all_iff dest: find_Some_set)

lemma addStock_nonneg:
  "stock_nonneg db \<Longrightarrow> 0 \<le> quantity \<Longrightarrow> stock_nonneg (fst (addStock ctx productId quantity db))"
  by (auto simp: addStock_def Let_def split: option.splits
           intro!: stock_nonneg_save dest: stock_nonneg_found)

lemma removeStock_nonneg:
  "stock_nonneg db \<Longrightarrow> stock_nonneg (fst (removeStock ctx productId quantity db))"
  by (auto simp: removeStock_def Let_def split: option.splits intro!: stock_nonneg_save)

lemma stock_call_step_nonneg:
  "stock_nonneg db \<Longrightarrow> adds_nonneg c \<Longrightarrow> stock_nonneg (stock_call_step db c)"
  by (cases c) (simp_all add: addStock_nonneg removeStock_nonneg)

text \<open>
  C1, as the code has it. Neither resolver looks at the sign of \<^verbatim>\<open>quantity\<close>, and
  \<^verbatim>\<open>addStock\<close> adds it unconditionally, so a negative quantity passed to \<^verbatim>\<open>addStock\<close> can
  take the stock below zero. With the quantities of \<^verbatim>\<open>addStock\<close> non-negative (and any
  integer quantity for \<^verbatim>\<open>removeStock\<close>, whose guard \<^verbatim>\<open>stock >= quantity\<close> is enough), every
  product's stock stays non-negative along every sequence of calls, whoever makes them.
\<close>

theorem stock_nonneg_run_stock_calls:
  assumes "stock_nonneg db" and "list_all adds_nonneg calls"
  shows "stock_nonneg (run_stock_calls db calls)"
  using assms unfolding run_stock_calls_def
proof (induction calls arbitrary: db)
  case Nil
  then show ?case by simp
next
  case (Cons c calls)
  then show ?case by (simp add: stock_call_step_nonneg)
qed

theorem stock_nonneg_run_stock_calls_witness:
  "stock_nonneg shop
   \<and> list_all adds_nonneg [AddStock signed_in ''p2'' 4, RemoveStock signed_in ''p1'' (- 2),
        RemoveStock anonymous ''p1'' 1, RemoveStock signed_in ''p2'' 9]
   \<and> stock_nonneg (run_stock_calls shop [AddStock signed_in ''p2'' 4,
        RemoveStock signed_in ''p1'' (- 2), RemoveStock anonymous ''p1'' 1,
        RemoveStock signed_in ''p2'' 9])"
proof -
  have h1: "stock_nonneg shop"
    by (simp add: stock_nonneg_def shop_def widget_def gadget_def)
  have h2: "list_all adds_nonneg [AddStock signed_in ''p2'' 4, RemoveStock signed_in ''p1'' (- 2),
        RemoveStock anonymous ''p1'' 1, RemoveStock signed_in ''p2'' 9]"
    by simp
  show ?thesis
    using stock_nonneg_run_stock_calls [OF h1 h2] h1 h2 by simp
qed

text \<open>
  C1 as stated fails: \<^verbatim>\<open>addStock("p1", -5)\<close> on a stock of 3 stores \<open>-2\<close>.
\<close>

theorem addStock_negative_quantity_counterexample:
  "stock_nonneg shop
   \<and> Product_findById (run_stock_calls shop [AddStock signed_in ''p1'' (- 5)]) ''p1''
       = Some (widget\<lparr>p_stock := - 2\<rparr>)
   \<and> \<not> stock_nonneg (run_stock_calls shop [AddStock signed_in ''p1'' (- 5)])"
  by (simp add: stock_nonneg_def run_stock_calls_def addStock_def Product_findById_def
      Product_save_def update_first_def Let_def sample_defs)

section \<open>Reviews: one review per user\<close>

lemma already_reviewed_find:
  "already_reviewed u rs \<longleftrightarrow> find (\<lambda>item. r_username item = u) rs \<noteq> None"
  by (induction rs) auto

lemma already_reviewed_append:
  "already_reviewed u (rs @ [r]) \<longleftrightarrow> already_reviewed u rs \<or> r_username r = u"
  by (induction rs) auto

lemma Product_findById_update:
  "Product_findById (Product_findByIdAndUpdate db i f) i = map_option f (Product_findById db i)"
  if "\<And>p. p_id (f p) = p_id p"
  using that by (simp add: Product_findById_def Product_findByIdAndUpdate_def find_update_first)

lemma Product_findById_update_other:
  "j \<noteq> i \<Longrightarrow> (\<And>p. p_id (f p) = p_id p) \<Longrightarrow>
   Product_findById (Product_findByIdAndUpdate db i f) j = Product_findById db j"
  unfolding Product_findById_def Product_findByIdAndUpdate_def
  by simp (rule find_update_first_other; auto)

lemma Product_findById_save_other:
  "j \<noteq> p_id p \<Longrightarrow> Product_findById (Product_save db p) j = Product_findById db j"
  unfolding Product_findById_def Product_save_def
  by simp (rule find_update_first_other; auto)

text \<open>
  C8. For an authenticated caller and an existing product: when a review by the caller's
  username is already on the product, \<^verbatim>\<open>addReview\<close> throws the FORBIDDEN error
  ``You have already reviewed this product.'' and the database is unchanged. Otherwise the
  product's review list grows by exactly the one new review, at its end, and any second
  \<^verbatim>\<open>addReview\<close> by the same caller on that product then fails in that way, leaving
  the database as the first call left it.
\<close>

theorem addReview_once_per_username:
  assumes "ctx_user ctx = Some cu"
    and "Product_findById db productId = Some product"
  shows "(if already_reviewed (a_username cu) (p_reviews product)
          then addReview ctx productId review rating now db =
                 (db, Inl (GraphQLError ''You have already reviewed this product.'' ''FORBIDDEN''))
          else Product_findById (fst (addReview ctx productId review rating now db)) productId =
                 Some (product\<lparr>p_reviews := p_reviews product
                         @ [new_review (a_username cu) review rating now]\<rparr>)
             \<and> addReview ctx productId review2 rating2 now2
                  (fst (addReview ctx productId review rating now db)) =
                 (fst (addReview ctx productId review rating now db),
                  Inl (GraphQLError ''You have already reviewed this product.'' ''FORBIDDEN'')))"
proof (cases "already_reviewed (a_username cu) (p_reviews product)")
  case True
  then show ?thesis using assms by (simp add: addReview_def)
next
  case False
  let ?f = "\<lambda>p. p\<lparr>p_reviews := p_reviews p @ [new_review (a_username cu) review rating now]\<rparr>"
  let ?db' = "Product_findByIdAndUpdate db productId ?f"
  have db': "fst (addReview ctx productId review rating now db) = ?db'"
    using assms False by (simp add: addReview_def)
  have found: "Product_findById ?db' productId = Some (?f product)"
    using assms(2) by (simp add: Product_findById_update)
  have "already_reviewed (a_username cu) (p_reviews (?f product))"
    by (simp add: already_reviewed_append new_review_def)
  then have "addReview ctx productId review2 rating2 now2 ?db' =
      (?db', Inl (GraphQLError ''You have already reviewed this product.'' ''FORBIDDEN''))"
    using assms(1) found by (simp add: addReview_def)
  with False found show ?thesis by (simp add: db')
qed

theorem addReview_once_per_username_witness:
  "ctx_user signed_in = Some alice \<and> Product_findById shop ''p1'' = Some widget
   \<and> \<not> already_reviewed (a_username alice) (p_reviews widget)
   \<and> Product_findById (fst (addReview signed_in ''p1'' ''great'' 5 200 shop)) ''p1'' =
        Some (widget\<lparr>p_reviews := [bob_review, new_review ''alice'' ''great'' 5 200]\<rparr>)
   \<and> addReview signed_in ''p1'' ''again'' 1 300
        (fst (addReview signed_in ''p1'' ''great'' 5 200 shop)) =
        (fst (addReview signed_in ''p1'' ''great'' 5 200 shop),
         Inl (GraphQLError ''You have already reviewed this product.'' ''FORBIDDEN''))"
proof -
  have h1: "ctx_user signed_in = Some alice"
    by (simp add: signed_in_def)
  have h2: "Product_findById shop ''p1'' = Some widget"
    by (simp add: Product_findById_def shop_def widget_def)
  have h3: "\<not> already_reviewed (a_username alice) (p_reviews widget)"
    by (simp add: alice_def widget_def bob_review_def)
  have n: "a_username alice = ''alice''" "p_reviews widget = [bob_review]"
    by (simp_all add: alice_def widget_def)
  from addReview_once_per_username [OF h1 h2, of "''great''" 5 200 "''again''" 1 300] h3
  have "Product_findById (fst (addReview signed_in ''p1'' ''great'' 5 200 shop)) ''p1'' =
        Some (widget\<lparr>p_reviews := [bob_review, new_review ''alice'' ''great'' 5 200]\<rparr>)
     \<and> addReview signed_in ''p1'' ''again'' 1 300
        (fst (addReview signed_in ''p1'' ''great'' 5 200 shop)) =
        (fst (addReview signed_in ''p1'' ''great'' 5 200 shop),
         Inl (GraphQLError ''You have already reviewed this product.'' ''FORBIDDEN''))"
    by (simp add: n)
  with h1 h2 h3 show ?thesis by blast
qed

text \<open>
  C9. For an authenticated caller who has a review on an existing product, \<^verbatim>\<open>editReview\<close>
  replaces the text and the rating of the caller's (first) review, at its position \<open>i\<close>
  in the list, and saves the product: the list keeps its length, the review keeps its
  username and creation timestamp, every other review and every other product is as
  before.
\<close>

theorem editReview_in_place:
  assumes "ctx_user ctx = Some cu"
    and "Product_findById db productId = Some product"
    and "already_reviewed (a_username cu) (p_reviews product)"
  shows "\<exists>i<length (p_reviews product).
           r_username (p_reviews product ! i) = a_username cu
         \<and> (\<forall>j<i. r_username (p_reviews product ! j) \<noteq> a_username cu)
         \<and> editReview ctx productId review rating db =
             (Product_save db (product\<lparr>p_reviews := (p_reviews product)
                 [i := (p_reviews product ! i)\<lparr>r_review := review, r_rating := rating\<rparr>]\<rparr>),
              Inr (product\<lparr>p_reviews := (p_reviews product)
                 [i := (p_reviews product ! i)\<lparr>r_review := review, r_rating := rating\<rparr>]\<rparr>))
         \<and> Product_findById (fst (editReview ctx productId review rating db)) productId =
             Some (product\<lparr>p_reviews := (p_reviews product)
                 [i := (p_reviews product ! i)\<lparr>r_review := review, r_rating := rating\<rparr>]\<rparr>)
         \<and> (\<forall>j. j \<noteq> productId \<longrightarrow>
               Product_findById (fst (editReview ctx productId review rating db)) j =
               Product_findById db j)"
proof -
  let ?P = "\<lambda>item. r_username item = a_username cu"
  let ?f = "\<lambda>item. item\<lparr>r_review := review, r_rating := rating\<rparr>"
  have pid: "p_id product = productId"
    using assms(2) by (rule Product_findById_id)
  from assms(3) obtain ys where ys: "modify_first ?P ?f (p_reviews product) = Some ys"
    by (auto simp: already_reviewed_find modify_first_None [symmetric, of ?P _ ?f])
  from modify_first_Some_index [OF ys] obtain i where i: "i < length (p_reviews product)"
    "?P (p_reviews product ! i)" "\<forall>j<i. \<not> ?P (p_reviews product ! j)"
    "ys = (p_reviews product)[i := ?f (p_reviews product ! i)]" by blast
  let ?p' = "product\<lparr>p_reviews := ys\<rparr>"
  have run: "editReview ctx productId review rating db = (Product_save db ?p', Inr ?p')"
    using assms(1,2) ys by (simp add: editReview_def Let_def)
  have found: "Product_findById (Product_save db ?p') productId = Some ?p'"
    using Product_findById_save [of db ?p' product] assms(2) pid by simp
  have other: "\<forall>j. j \<noteq> productId \<longrightarrow> Product_findById (Product_save db ?p') j = Product_findById db j"
    using pid by (simp add: Product_findById_save_other)
  show ?thesis
    using i run found other by (intro exI [of _ i]) (simp add: i(4) [symmetric])
qed

theorem editReview_in_place_witness:
  "ctx_user bob_signed_in = Some bob \<and> Product_findById shop ''p1'' = Some widget
   \<and> already_reviewed (a_username bob) (p_reviews widget)
   \<and> Product_findById (fst (editReview bob_signed_in ''p1'' ''better'' 5 shop)) ''p1'' =
        Some (widget\<lparr>p_reviews := [\<lparr>r_username = ''bob'', r_review = ''better'', r_rating = 5,
                                      r_dateCreated = 100\<rparr>]\<rparr>)
   \<and> Product_findById (fst (editReview bob_signed_in ''p1'' ''better'' 5 shop)) ''p2'' =
        Some gadget"
proof -
  have h1: "ctx_user bob_signed_in = Some bob"
    by (simp add: bob_signed_in_def)
  have h2: "Product_findById shop ''p1'' = Some widget"
    by (simp add: Product_findById_def shop_def widget_def)
  have h3: "already_reviewed (a_username bob) (p_reviews widget)"
    by (simp add: bob_def widget_def bob_review_def)
  have g: "Product_findById shop ''p2'' = Some gadget"
    by (simp add: Product_findById_def shop_def widget_def gadget_def)
  from editReview_in_place [OF h1 h2 h3, of "''better''" 5]
  have "Product_findById (fst (editReview bob_signed_in ''p1'' ''better'' 5 shop)) ''p1'' =
        Some (widget\<lparr>p_reviews := [\<lparr>r_username = ''bob'', r_review = ''better'', r_rating = 5,
                                      r_dateCreated = 100\<rparr>]\<rparr>)
     \<and> Product_findById (fst (editReview bob_signed_in ''p1'' ''better'' 5 shop)) ''p2'' =
        Some gadget"
    by (auto simp: widget_def bob_review_def g)
  with h1 h2 h3 show ?thesis by blast
qed

section \<open>Basket: one line per product\<close>

lemma addBasketItem_unique:
  assumes "basket_lines_unique db" and "canonical castObjectId productId"
  shows "basket_lines_unique (fst (addBasketItem castObjectId ctx productId quantity now db))"
proof (cases "fst (addBasketItem castObjectId ctx productId quantity now db) = db")
  case True
  with assms show ?thesis by simp
next
  case False
  then obtain cu oid product user where cu: "ctx_user ctx = Some cu"
    and oid: "castObjectId productId = Some oid"
    and product: "Product_findById db oid = Some product"
    and user: "User_findById db (a_id cu) = Some user"
    by (auto simp: addBasketItem_def split: option.splits)
  from assms(2) oid have canon: "oid = productId"
    by (simp add: canonical_def)
  let ?P = "\<lambda>item. b_product item = productId"
  have uid: "u_id user = a_id cu" using user by (rule User_findById_id)
  have du: "distinct (map b_product (u_basket user))"
    using assms(1) user
    by (auto simp: basket_lines_unique_def User_findById_def list_all_iff dest: find_Some_set)
  show ?thesis
  proof (cases "modify_first ?P (\<lambda>item. item\<lparr>b_quantity := b_quantity item + quantity\<rparr>) (u_basket user)")
    case None
    then have "productId \<notin> set (map b_product (u_basket user))"
      by (auto simp: modify_first_None find_None_not_in)
    with du have "distinct (map b_product (u_basket user @ [new_basket_item oid quantity now]))"
      by (simp add: new_basket_item_def canon)
    then have "list_all (\<lambda>u. distinct (map b_product (u_basket u)))
       (update_first (\<lambda>v. u_id v = a_id cu)
          (\<lambda>u. u\<lparr>u_basket := u_basket u @ [new_basket_item oid quantity now]\<rparr>) (User_docs db))"
      using assms(1) user
      by (intro list_all_update_first_found) (simp_all add: basket_lines_unique_def User_findById_def)
    then show ?thesis
      using cu oid product user None
      by (simp add: addBasketItem_def User_findByIdAndUpdate_def Let_def basket_lines_unique_def)
  next
    case (Some basket')
    then have "map b_product basket' = map b_product (u_basket user)"
      by (rule modify_first_map) simp
    with du have "distinct (map b_product (u_basket (user\<lparr>u_basket := basket'\<rparr>)))" by simp
    then have "list_all (\<lambda>u. distinct (map b_product (u_basket u)))
       (update_first (\<lambda>v. u_id v = u_id user) (\<lambda>_. user\<lparr>u_basket := basket'\<rparr>) (User_docs db))"
      using assms(1)
      by (intro list_all_update_first_found) (simp_all add: basket_lines_unique_def)
    then show ?thesis
      using cu oid product user Some
      by (simp add: addBasketItem_def User_save_def Let_def basket_lines_unique_def)
  qed
qed

text \<open>
  With arguments in canonical form the basket keeps one line per product: every sequence
  of such calls preserves it, and two calls for a product without a line leave one line
  with the sum of the quantities.
\<close>

lemma run_basket_adds_unique:
  "basket_lines_unique db \<Longrightarrow> list_all (canonical_add castObjectId) calls \<Longrightarrow>
   basket_lines_unique (run_basket_adds castObjectId db calls)"
  unfolding run_basket_adds_def
proof (induction calls arbitrary: db)
  case Nil
  then show ?case by simp
next
  case (Cons c calls)
  obtain ctx productId quantity now where c: "c = (ctx, productId, quantity, now)"
    by (cases c) auto
  from Cons show ?case by (simp add: c addBasketItem_unique)
qed

lemma addBasketItem_pushes:
  assumes cu: "ctx_user ctx = Some cu"
    and oid: "castObjectId productId = Some oid"
    and product: "Product_findById db oid = Some product"
    and user: "User_findById db (a_id cu) = Some user"
    and absent: "find (\<lambda>item. b_product item = productId) (u_basket user) = None"
  shows "fst (addBasketItem castObjectId ctx productId quantity now db) =
           db\<lparr>User_docs := update_first (\<lambda>v. u_id v = a_id cu)
                (\<lambda>u. u\<lparr>u_basket := u_basket u @ [new_basket_item oid quantity now]\<rparr>)
                (User_docs db)\<rparr>"
    and "Product_findById (fst (addBasketItem castObjectId ctx productId quantity now db)) oid =
           Some product"
    and "User_findById (fst (addBasketItem castObjectId ctx productId quantity now db)) (a_id cu) =
           Some (user\<lparr>u_basket := u_basket user @ [new_basket_item oid quantity now]\<rparr>)"
proof -
  let ?P = "\<lambda>item. b_product item = productId"
  let ?f = "\<lambda>u. u\<lparr>u_basket := u_basket u @ [new_basket_item oid quantity now]\<rparr>"
  let ?db1 = "db\<lparr>User_docs := update_first (\<lambda>v. u_id v = a_id cu) ?f (User_docs db)\<rparr>"
  have none: "modify_first ?P (\<lambda>item. item\<lparr>b_quantity := b_quantity item + quantity\<rparr>)
      (u_basket user) = None"
    using absent by (simp add: modify_first_None)
  have upd: "User_findByIdAndUpdate db (a_id cu) ?f = (?db1, Some (?f user))"
    using user by (simp add: User_findByIdAndUpdate_found)
  show first: "fst (addBasketItem castObjectId ctx productId quantity now db) = ?db1"
    using cu oid product user none upd by (simp add: addBasketItem_def)
  show "Product_findById (fst (addBasketItem castObjectId ctx productId quantity now db)) oid =
      Some product"
    unfolding first using product by (simp add: Product_findById_def)
  show "User_findById (fst (addBasketItem castObjectId ctx productId quantity now db)) (a_id cu) =
      Some (user\<lparr>u_basket := u_basket user @ [new_basket_item oid quantity now]\<rparr>)"
    unfolding first using user by (simp add: User_findById_def find_update_first)
qed

lemma addBasketItem_twice:
  assumes cu: "ctx_user ctx = Some cu"
    and oid: "castObjectId productId = Some productId"
    and product: "Product_findById db productId = Some product"
    and user: "User_findById db (a_id cu) = Some user"
    and absent: "find (\<lambda>item. b_product item = productId) (u_basket user) = None"
  shows "User_findById (fst (addBasketItem castObjectId ctx productId q2 t2
             (fst (addBasketItem castObjectId ctx productId q1 t1 db)))) (a_id cu) =
         Some (user\<lparr>u_basket := u_basket user
                 @ [\<lparr>b_product = productId, b_quantity = q1 + q2, b_dateAdded = t1\<rparr>]\<rparr>)"
proof -
  let ?P = "\<lambda>item. b_product item = productId"
  let ?new = "new_basket_item productId q1 t1"
  let ?u1 = "user\<lparr>u_basket := u_basket user @ [?new]\<rparr>"
  let ?db1 = "fst (addBasketItem castObjectId ctx productId q1 t1 db)"
  note first = addBasketItem_pushes [where castObjectId = castObjectId and productId = productId
      and quantity = q1 and now = t1, OF cu oid product user absent]
  let ?u2 = "user\<lparr>u_basket := u_basket user @ [?new\<lparr>b_quantity := b_quantity ?new + q2\<rparr>]\<rparr>"
  have some: "modify_first ?P (\<lambda>item. item\<lparr>b_quantity := b_quantity item + q2\<rparr>) (u_basket ?u1)
      = Some (u_basket user @ [?new\<lparr>b_quantity := b_quantity ?new + q2\<rparr>])"
    using absent by (simp add: modify_first_snoc new_basket_item_def)
  have second: "fst (addBasketItem castObjectId ctx productId q2 t2 ?db1) = User_save ?db1 ?u2"
    using cu oid first(2,3) some by (simp add: addBasketItem_def Let_def)
  have uid: "u_id user = a_id cu" using user by (rule User_findById_id)
  have "User_findById (User_save ?db1 ?u2) (u_id ?u2) = Some ?u2"
    by (rule User_findById_save [where v = ?u1]) (simp add: uid first(3))
  then have "User_findById (User_save ?db1 ?u2) (a_id cu) = Some ?u2"
    by (simp add: uid)
  then show ?thesis
    unfolding second by (simp add: new_basket_item_def)
qed

text \<open>
  C5 fails on the code for an argument that is not in canonical form. Let the cast take
  \<^verbatim>\<open>productId\<close> to the identifier \<open>oid\<close> of a product of the catalog, with \<open>oid\<close> another
  string than \<^verbatim>\<open>productId\<close> (the same hexadecimal digits with letters in upper case, say),
  and let no line of the user's basket carry \<^verbatim>\<open>productId\<close> itself as its product. Then the
  comparison \<^verbatim>\<open>item.product.toString() === productId\<close> is false for every line, also for the
  line that the first call pushed, and two calls of \<^verbatim>\<open>addBasketItem\<close> with quantities \<open>q1\<close>
  and \<open>q2\<close> leave two new lines for the one product \<open>oid\<close>, not one line with \<open>q1 + q2\<close>.
\<close>

theorem addBasketItem_noncanonical_id_two_lines:
  assumes cu: "ctx_user ctx = Some cu"
    and oid: "castObjectId productId = Some oid"
    and raw: "oid \<noteq> productId"
    and product: "Product_findById db oid = Some product"
    and user: "User_findById db (a_id cu) = Some user"
    and absent: "find (\<lambda>item. b_product item = productId) (u_basket user) = None"
  shows "User_findById (fst (addBasketItem castObjectId ctx productId q2 t2
             (fst (addBasketItem castObjectId ctx productId q1 t1 db)))) (a_id cu) =
         Some (user\<lparr>u_basket := u_basket user
                 @ [\<lparr>b_product = oid, b_quantity = q1, b_dateAdded = t1\<rparr>,
                    \<lparr>b_product = oid, b_quantity = q2, b_dateAdded = t2\<rparr>]\<rparr>)"
proof -
  let ?db1 = "fst (addBasketItem castObjectId ctx productId q1 t1 db)"
  let ?u1 = "user\<lparr>u_basket := u_basket user @ [new_basket_item oid q1 t1]\<rparr>"
  note first = addBasketItem_pushes [where castObjectId = castObjectId and productId = productId
      and quantity = q1 and now = t1, OF cu oid product user absent]
  have absent1: "find (\<lambda>item. b_product item = productId) (u_basket ?u1) = None"
    using absent raw by (simp add: find_None_not_in new_basket_item_def)
  note second = addBasketItem_pushes [where castObjectId = castObjectId and productId = productId
      and quantity = q2 and now = t2, OF cu oid first(2) first(3) absent1]
  from second(3) show ?thesis
    by (simp add: new_basket_item_def)
qed

theorem addBasketItem_noncanonical_id_two_lines_witness:
  "ctx_user signed_in = Some alice
   \<and> sample_castObjectId ''64B7F0C2A1D3E4F5A6B7C8D9'' = Some ''64b7f0c2a1d3e4f5a6b7c8d9''
   \<and> ''64b7f0c2a1d3e4f5a6b7c8d9'' \<noteq> ''64B7F0C2A1D3E4F5A6B7C8D9''
   \<and> Product_findById lamp_shop ''64b7f0c2a1d3e4f5a6b7c8d9'' = Some lamp
   \<and> User_findById lamp_shop (a_id alice) = Some alice_doc
   \<and> find (\<lambda>item. b_product item = ''64B7F0C2A1D3E4F5A6B7C8D9'') (u_basket alice_doc) = None
   \<and> User_findById (fst (addBasketItem sample_castObjectId signed_in
          ''64B7F0C2A1D3E4F5A6B7C8D9'' 3 20
          (fst (addBasketItem sample_castObjectId signed_in
             ''64B7F0C2A1D3E4F5A6B7C8D9'' 2 10 lamp_shop)))) (a_id alice) =
        Some (alice_doc\<lparr>u_basket :=
          [\<lparr>b_product = ''64b7f0c2a1d3e4f5a6b7c8d9'', b_quantity = 2, b_dateAdded = 10\<rparr>,
           \<lparr>b_product = ''64b7f0c2a1d3e4f5a6b7c8d9'', b_quantity = 3, b_dateAdded = 20\<rparr>]\<rparr>)"
proof -
  have h1: "ctx_user signed_in = Some alice"
    by (simp add: signed_in_def)
  have h2: "sample_castObjectId ''64B7F0C2A1D3E4F5A6B7C8D9'' = Some ''64b7f0c2a1d3e4f5a6b7c8d9''"
    by (simp add: sample_castObjectId_def hex_lower_def)
  have h3: "''64b7f0c2a1d3e4f5a6b7c8d9'' \<noteq> ''64B7F0C2A1D3E4F5A6B7C8D9''"
    by simp
  have h4: "Product_findById lamp_shop ''64b7f0c2a1d3e4f5a6b7c8d9'' = Some lamp"
    by (simp add: Product_findById_def lamp_shop_def lamp_def)
  have h5: "User_findById lamp_shop (a_id alice) = Some alice_doc"
    by (simp add: User_findById_def lamp_shop_def shop_def alice_def alice_doc_def)
  have h6: "find (\<lambda>item. b_product item = ''64B7F0C2A1D3E4F5A6B7C8D9'') (u_basket alice_doc) = None"
    by (simp add: alice_doc_def)
  have a: "User_findById (fst (addBasketItem sample_castObjectId signed_in
          ''64B7F0C2A1D3E4F5A6B7C8D9'' 3 20
          (fst (addBasketItem sample_castObjectId signed_in
             ''64B7F0C2A1D3E4F5A6B7C8D9'' 2 10 lamp_shop)))) (a_id alice) =
        Some (alice_doc\<lparr>u_basket :=
          [\<lparr>b_product = ''64b7f0c2a1d3e4f5a6b7c8d9'', b_quantity = 2, b_dateAdded = 10\<rparr>,
           \<lparr>b_product = ''64b7f0c2a1d3e4f5a6b7c8d9'', b_quantity = 3, b_dateAdded = 20\<rparr>]\<rparr>)"
    using addBasketItem_noncanonical_id_two_lines [where castObjectId = sample_castObjectId
        and productId = "''64B7F0C2A1D3E4F5A6B7C8D9''" and ?q1.0 = 2 and ?t1.0 = 10
        and ?q2.0 = 3 and ?t2.0 = 20, OF h1 h2 h3 h4 h5 h6]
    by (simp add: alice_doc_def)
  from h1 h2 h3 h4 h5 h6 a show ?thesis by blast
qed

text \<open>
  C7, as the code has it. For an authenticated user whose document exists and a product of
  the catalog that has no line in the user's basket, \<^verbatim>\<open>removeBasketItem\<close> and
  \<^verbatim>\<open>decrementBasketItem\<close> change nothing in the database, and they throw the FORBIDDEN
  error \<open>forbiddenException\<close>: they do not return the user.
\<close>

theorem basket_absent_line_forbidden:
  assumes "ctx_user ctx = Some cu"
    and "Product_findById db productId = Some product"
    and "User_findById db (a_id cu) = Some user"
    and "find (\<lambda>item. b_product item = productId) (u_basket user) = None"
  shows "removeBasketItem ctx productId db = (db, Inl forbiddenException)
       \<and> decrementBasketItem ctx productId db = (db, Inl forbiddenException)"
  using assms by (simp add: removeBasketItem_def decrementBasketItem_def)

theorem basket_absent_line_forbidden_witness:
  "ctx_user carol_signed_in = Some carol \<and> Product_findById shop ''p1'' = Some widget
   \<and> User_findById shop (a_id carol) = Some carol_doc
   \<and> find (\<lambda>item. b_product item = ''p1'') (u_basket carol_doc) = None
   \<and> removeBasketItem carol_signed_in ''p1'' shop = (shop, Inl forbiddenException)
   \<and> decrementBasketItem carol_signed_in ''p1'' shop = (shop, Inl forbiddenException)"
proof -
  have h1: "ctx_user carol_signed_in = Some carol"
    by (simp add: carol_signed_in_def)
  have h2: "Product_findById shop ''p1'' = Some widget"
    by (simp add: Product_findById_def shop_def widget_def)
  have h3: "User_findById shop (a_id carol) = Some carol_doc"
    by (simp add: User_findById_def shop_def carol_def alice_doc_def carol_doc_def)
  have h4: "find (\<lambda>item. b_product item = ''p1'') (u_basket carol_doc) = None"
    by (simp add: carol_doc_def)
  from basket_absent_line_forbidden [OF h1 h2 h3 h4] h1 h2 h3 h4 show ?thesis by blast
qed

text \<open>
  C7 as stated fails: with an empty basket and the product \<^verbatim>\<open>p1\<close> in the catalog, both
  resolvers end in an error instead of returning the user.
\<close>

theorem basket_absent_line_counterexample:
  "ctx_user signed_in = Some alice \<and> Product_findById shop ''p1'' = Some widget
   \<and> User_findById shop ''u1'' = Some alice_doc \<and> u_basket alice_doc = []
   \<and> snd (removeBasketItem signed_in ''p1'' shop) =
        Inl (GraphQLError ''You are not authorized to perform this action.'' ''FORBIDDEN'')
   \<and> snd (decrementBasketItem signed_in ''p1'' shop) =
        Inl (GraphQLError ''You are not authorized to perform this action.'' ''FORBIDDEN'')"
  by (simp add: removeBasketItem_def decrementBasketItem_def Product_findById_def
      User_findById_def forbiddenException_def sample_defs)

section \<open>Checkout: the manifest, the requests and the outcome\<close>

lemma map_of_bump:
  "map_of (map (\<lambda>(k, v). if k = x then (k, n) else (k, v)) pq) k' =
     (if k' = x then (if x \<in> fst ` set pq then Some n else None) else map_of pq k')"
  by (induction pq) force+

lemma map_of_count_step:
  "map_of (count_step pq x) k =
     (if k = x then Some (case map_of pq x of None \<Rightarrow> 1 | Some n \<Rightarrow> n + 1) else map_of pq k)"
proof (cases "map_of pq x")
  case None
  then show ?thesis by (auto simp: count_step_def map_add_def split: option.splits)
next
  case (Some n)
  then have "x \<in> fst ` set pq"
    by (metis domI dom_map_of_conv_image_fst)
  with Some show ?thesis by (simp add: count_step_def map_of_bump)
qed

lemma map_of_foldl_count_step:
  "map_of (foldl count_step acc xs) k =
     (case map_of acc k of
        None \<Rightarrow> if k \<in> set xs then Some (int (count_list xs k)) else None
      | Some n \<Rightarrow> Some (n + int (count_list xs k)))"
  by (induction xs arbitrary: acc) (auto simp: map_of_count_step split: option.splits)

lemma map_of_productQuantities_of:
  "map_of (productQuantities_of xs) k = (if k \<in> set xs then Some (int (count_list xs k)) else None)"
  by (simp add: productQuantities_of_def map_of_foldl_count_step)

lemma keys_productQuantities_of: "set (map fst (productQuantities_of xs)) = set xs"
proof -
  have "dom (map_of (productQuantities_of xs)) = set xs"
    by (auto simp: map_of_productQuantities_of split: if_splits)
  then show ?thesis by (simp add: dom_map_of_conv_image_fst)
qed

lemma count_list_filter:
  "count_list (filter P xs) k = (if P k then count_list xs k else 0)"
  by (induction xs) auto

lemma line_items_loop_cong:
  assumes "\<And>p. p \<in> set ps \<Longrightarrow> map_of pq (p_id p) = map_of pq' (p_id p)"
  shows "line_items_loop unit_amount stripe pq ps sent items = line_items_loop unit_amount stripe pq' ps sent items"
  using assms
  by (induction ps arbitrary: sent items) (auto simp: Let_def split: option.splits)

lemma line_items_loop_error:
  "line_items_loop unit_amount stripe pq ps sent items = (sent', Inl e) \<Longrightarrow> e = StripeError"
  by (induction ps arbitrary: sent items) (auto simp: Let_def split: option.splits)

lemma Product_docs_User_save: "Product_docs (User_save db u) = Product_docs db"
  by (simp add: User_save_def)

lemma checkout_fst:
  assumes "ctx_user ctx = Some cu" and "checkout_url parse ctx = Inr url"
  shows "fst (checkout parse unit_amount stripe now ctx products db) =
     (case User_findById db (a_id cu) of
        None \<Rightarrow> db
      | Some user \<Rightarrow> User_save db (user\<lparr>u_orders := u_orders user
          @ [\<lparr>o_products = products, o_purchaseDate = now\<rparr>]\<rparr>))"
  using assms
  by (simp add: checkout_def Let_def split: prod.splits sum.splits option.splits)

lemma checkout_snd:
  assumes "ctx_user ctx = Some cu" and "checkout_url parse ctx = Inr url"
  shows "snd (checkout parse unit_amount stripe now ctx products db) =
     (case line_items_loop unit_amount stripe (productQuantities_of products)
             (filter (\<lambda>p. p_id p \<in> set products) (Product_docs db)) [] [] of
        (sent, Inl e) \<Rightarrow> (sent, Inl e)
      | (sent, Inr line_items) \<Rightarrow>
          (case stripe sent (sessions_create [''card''] line_items ''payment''
                  (template_url url @ ''/success?session_id={CHECKOUT_SESSION_ID}'')
                  (template_url url @ ''/cart'')) of
             None \<Rightarrow>
               (sent @ [sessions_create [''card''] line_items ''payment''
                  (template_url url @ ''/success?session_id={CHECKOUT_SESSION_ID}'')
                  (template_url url @ ''/cart'')], Inl StripeError)
           | Some session \<Rightarrow>
               (sent @ [sessions_create [''card''] line_items ''payment''
                  (template_url url @ ''/success?session_id={CHECKOUT_SESSION_ID}'')
                  (template_url url @ ''/cart'')],
                Inr \<lparr>cr_sessionId = so_id session, cr_url = so_url session\<rparr>)))"
proof -
  have docs: "Product_docs (case User_findById db (a_id cu) of
        None \<Rightarrow> db
      | Some user \<Rightarrow> User_save db (user\<lparr>u_orders := u_orders user
          @ [\<lparr>o_products = products, o_purchaseDate = now\<rparr>]\<rparr>)) = Product_docs db"
    by (simp add: Product_docs_User_save split: option.splits)
  show ?thesis
    using assms
    by (simp add: checkout_def Let_def Product_find_in_def keys_productQuantities_of [simplified]
        docs split: prod.splits sum.splits option.splits)
qed

lemma filter_id_none:
  "find (\<lambda>p. p_id p = b) ps = None \<Longrightarrow> filter (\<lambda>p. p_id p = a \<or> p_id p = b) ps = filter (\<lambda>p. p_id p = a) ps"
  by (induction ps) (auto split: if_splits)

lemma filter_id_single:
  "distinct (map p_id ps) \<Longrightarrow> find (\<lambda>p. p_id p = b) ps = Some B \<Longrightarrow>
   filter (\<lambda>p. p_id p = b) ps = [B]"
proof (induction ps)
  case Nil
  then show ?case by simp
next
  case (Cons x xs)
  show ?case
  proof (cases "p_id x = b")
    case True
    with Cons.prems have "x = B" and "b \<notin> p_id ` set xs" by auto
    then have "x = B" and "\<forall>y\<in>set xs. p_id y \<noteq> b" by blast+
    with True show ?thesis by (simp add: filter_empty_conv)
  next
    case False
    with Cons show ?thesis by simp
  qed
qed

lemma find_id_None: "b \<notin> p_id ` set ps \<Longrightarrow> find (\<lambda>p. p_id p = b) ps = None"
  by (induction ps) auto

lemma filter_id_two:
  assumes "distinct (map p_id ps)" and "a \<noteq> b"
    and "find (\<lambda>p. p_id p = a) ps = Some A" and "find (\<lambda>p. p_id p = b) ps = Some B"
  shows "filter (\<lambda>p. p_id p = a \<or> p_id p = b) ps = [A, B]
       \<or> filter (\<lambda>p. p_id p = a \<or> p_id p = b) ps = [B, A]"
  using assms
proof (induction ps)
  case Nil
  then show ?case by simp
next
  case (Cons x xs)
  consider "p_id x = a" | "p_id x = b" | "p_id x \<noteq> a" "p_id x \<noteq> b" by blast
  then show ?case
  proof cases
    case 1
    with Cons.prems have x: "x = A" and B: "find (\<lambda>p. p_id p = b) xs = Some B"
      and d: "distinct (map p_id xs)" and na: "a \<notin> p_id ` set xs" by auto
    have "filter (\<lambda>p. p_id p = b \<or> p_id p = a) xs = filter (\<lambda>p. p_id p = b) xs"
      using na by (intro filter_id_none find_id_None)
    then have "filter (\<lambda>p. p_id p = a \<or> p_id p = b) xs = [B]"
      using filter_id_single [OF d B] by (simp add: disj_commute)
    with 1 x show ?thesis by simp
  next
    case 2
    with Cons.prems have x: "x = B" and A: "find (\<lambda>p. p_id p = a) xs = Some A"
      and d: "distinct (map p_id xs)" and nb: "b \<notin> p_id ` set xs" by auto
    have "filter (\<lambda>p. p_id p = a \<or> p_id p = b) xs = filter (\<lambda>p. p_id p = a) xs"
      using nb by (intro filter_id_none find_id_None)
    then have "filter (\<lambda>p. p_id p = a \<or> p_id p = b) xs = [A]"
      using filter_id_single [OF d A] by simp
    with 2 x show ?thesis by simp
  next
    case 3
    with Cons show ?thesis by simp
  qed
qed

lemma checkout_outcome:
  assumes "ctx_user ctx = Some cu" and "checkout_url parse ctx = Inr url"
  shows "snd (snd (checkout parse unit_amount stripe now ctx products db)) = Inl StripeError
       \<or> (\<exists>r. snd (snd (checkout parse unit_amount stripe now ctx products db)) = Inr r)"
proof (cases "line_items_loop unit_amount stripe (productQuantities_of products)
             (filter (\<lambda>p. p_id p \<in> set products) (Product_docs db)) [] []")
  case (Pair sent res)
  show ?thesis
  proof (cases res)
    case (Inl e)
    with Pair have "e = StripeError" by (auto dest: line_items_loop_error)
    with Pair Inl show ?thesis
      by (simp add: checkout_snd [OF assms])
  next
    case (Inr items)
    with Pair show ?thesis
      by (simp add: checkout_snd [OF assms] split: option.splits)
  qed
qed

lemma checkout_sessions_rejected:
  assumes "ctx_user ctx = Some cu" and "checkout_url parse ctx = Inr url"
    and "\<forall>sent items s c. stripe sent (sessions_create [''card''] items ''payment'' s c) = None"
  shows "snd (snd (checkout parse unit_amount stripe now ctx products db)) = Inl StripeError"
proof (cases "line_items_loop unit_amount stripe (productQuantities_of products)
             (filter (\<lambda>p. p_id p \<in> set products) (Product_docs db)) [] []")
  case (Pair sent res)
  show ?thesis
  proof (cases res)
    case (Inl e)
    with Pair have "e = StripeError" by (auto dest: line_items_loop_error)
    with Pair Inl show ?thesis
      by (simp add: checkout_snd [OF assms(1,2)])
  next
    case (Inr items)
    with Pair assms(3) show ?thesis
      by (simp add: checkout_snd [OF assms(1,2)])
  qed
qed

lemma checkout_order_found:
  assumes "ctx_user ctx = Some cu" and "checkout_url parse ctx = Inr url"
    and "User_findById db (a_id cu) = Some user"
  shows "User_findById (fst (checkout parse unit_amount stripe now ctx products db)) (a_id cu) =
           Some (user\<lparr>u_orders := u_orders user
                   @ [\<lparr>o_products = products, o_purchaseDate = now\<rparr>]\<rparr>)"
proof -
  let ?u = "user\<lparr>u_orders := u_orders user @ [\<lparr>o_products = products, o_purchaseDate = now\<rparr>]\<rparr>"
  have uid: "u_id user = a_id cu"
    using assms(3) by (rule User_findById_id)
  have "User_findById (User_save db ?u) (u_id ?u) = Some ?u"
    unfolding User_findById_def User_save_def
    using assms(3) uid by (simp add: find_update_first User_findById_def)
  then show ?thesis
    using assms(3) uid by (simp add: checkout_fst [OF assms(1,2)])
qed

lemma find_in_set_not_None: "p \<in> set ps \<Longrightarrow> find (\<lambda>q. p_id q = p_id p) ps \<noteq> None"
  by (auto simp: find_None_iff)

section \<open>Checkout: the claims\<close>

text \<open>
  C3, as the code has it. Take an authenticated caller whose request lets \<^verbatim>\<open>url\<close> be
  computed (the context has no headers, or a \<^verbatim>\<open>referer\<close> that parses), two different
  products \<open>p1\<close> and \<open>p2\<close> of a catalog with unique identifiers, and a payment client
  that accepts the product and price requests. Then the list \<^verbatim>\<open>["p1","p1","p2"]\<close> gives the
  manifest \<open>{p1: 2, p2: 1}\<close>, and the session request carries exactly two line items, one
  per product in the order of the collection, each with the manifest's count as quantity
  and with the price object created for the product's unit amount. The unit amount is
  \<open>unit_amount\<close> of the sale price when \<^verbatim>\<open>onSale\<close> is set and the sale price is present
  and not zero, and of the list price otherwise.
\<close>

theorem checkout_manifest_line_items:
  fixes p1 p2 :: ident and unit :: "product \<Rightarrow> rat" and qty :: "product \<Rightarrow> int"
    and unit_amount :: "rat \<Rightarrow> int"
  defines "unit \<equiv> \<lambda>p. (case p_salePrice p of
                           None \<Rightarrow> p_price p
                         | Some s \<Rightarrow> if p_onSale p \<and> s \<noteq> 0 then s else p_price p)"
    and "qty \<equiv> \<lambda>p. (if p_id p = p1 then 2 else 1)"
  assumes "ctx_user ctx = Some cu" and "checkout_url parse ctx = Inr url"
    and "p1 \<noteq> p2"
    and "Product_findById db p1 = Some prod1" and "Product_findById db p2 = Some prod2"
    and "distinct (map p_id (Product_docs db))"
    and "\<And>sent n d imgs. stripe sent (products_create n d imgs) \<noteq> None"
    and "\<And>sent p a c. stripe sent (prices_create p a c) \<noteq> None"
  shows "productQuantities_of [p1, p1, p2] = [(p1, 2), (p2, 1)]
     \<and> (\<exists>A B oA rA oB rB.
           Product_find_in db [p1, p2] = [A, B]
         \<and> (A = prod1 \<and> B = prod2 \<or> A = prod2 \<and> B = prod1)
         \<and> stripe [] (products_create (p_name A) (p_description A) [p_imageUrl A]) = Some oA
         \<and> stripe [products_create (p_name A) (p_description A) [p_imageUrl A]]
              (prices_create (so_id oA) (unit_amount (unit A)) ''usd'') = Some rA
         \<and> stripe [products_create (p_name A) (p_description A) [p_imageUrl A],
                    prices_create (so_id oA) (unit_amount (unit A)) ''usd'']
              (products_create (p_name B) (p_description B) [p_imageUrl B]) = Some oB
         \<and> stripe [products_create (p_name A) (p_description A) [p_imageUrl A],
                    prices_create (so_id oA) (unit_amount (unit A)) ''usd'',
                    products_create (p_name B) (p_description B) [p_imageUrl B]]
              (prices_create (so_id oB) (unit_amount (unit B)) ''usd'') = Some rB
         \<and> fst (snd (checkout parse unit_amount stripe now ctx [p1, p1, p2] db)) =
             [products_create (p_name A) (p_description A) [p_imageUrl A],
              prices_create (so_id oA) (unit_amount (unit A)) ''usd'',
              products_create (p_name B) (p_description B) [p_imageUrl B],
              prices_create (so_id oB) (unit_amount (unit B)) ''usd'',
              sessions_create [''card'']
                [\<lparr>li_price = so_id rA, li_quantity = Some (qty A)\<rparr>,
                 \<lparr>li_price = so_id rB, li_quantity = Some (qty B)\<rparr>]
                ''payment''
                (template_url url @ ''/success?session_id={CHECKOUT_SESSION_ID}'')
                (template_url url @ ''/cart'')])"
proof -
  have manifest: "productQuantities_of [p1, p1, p2] = [(p1, 2), (p2, 1)]"
    using \<open>p1 \<noteq> p2\<close> by (simp add: productQuantities_of_def count_step_def)
  have unit: "unit = finalPrice"
    by (simp add: unit_def finalPrice_def fun_eq_iff)
  let ?found = "filter (\<lambda>p. p_id p = p1 \<or> p_id p = p2) (Product_docs db)"
  have found_eq: "filter (\<lambda>p. p_id p \<in> set [p1, p1, p2]) (Product_docs db) = ?found"
    "Product_find_in db [p1, p2] = ?found"
    by (simp_all add: Product_find_in_def)
  have ids: "p_id prod1 = p1" "p_id prod2 = p2"
    using assms(6,7) by (auto dest: Product_findById_id)
  from filter_id_two [OF assms(8) assms(5)] assms(6,7)
  obtain A B where AB: "?found = [A, B]" "A = prod1 \<and> B = prod2 \<or> A = prod2 \<and> B = prod1"
    unfolding Product_findById_def by blast
  have q: "map_of [(p1, 2), (p2, 1)] (p_id A) = Some (qty A)"
    "map_of [(p1, 2), (p2, 1)] (p_id B) = Some (qty B)"
    using AB(2) ids assms(5) by (auto simp: qty_def)
  let ?cA = "products_create (p_name A) (p_description A) [p_imageUrl A]"
  let ?cB = "products_create (p_name B) (p_description B) [p_imageUrl B]"
  obtain oA where oA: "stripe [] ?cA = Some oA"
    using assms(9) by blast
  let ?pA = "prices_create (so_id oA) (unit_amount (unit A)) ''usd''"
  obtain rA where rA: "stripe [?cA] ?pA = Some rA"
    using assms(10) by blast
  obtain oB where oB: "stripe [?cA, ?pA] ?cB = Some oB"
    using assms(9) by blast
  let ?pB = "prices_create (so_id oB) (unit_amount (unit B)) ''usd''"
  obtain rB where rB: "stripe [?cA, ?pA, ?cB] ?pB = Some rB"
    using assms(10) by blast
  have loop: "line_items_loop unit_amount stripe [(p1, 2), (p2, 1)] [A, B] [] [] =
      ([?cA, ?pA, ?cB, ?pB],
       Inr [\<lparr>li_price = so_id rA, li_quantity = Some (qty A)\<rparr>,
            \<lparr>li_price = so_id rB, li_quantity = Some (qty B)\<rparr>])"
    using oA rA oB rB q by (simp add: Let_def unit)
  have fin: "fst (snd (checkout parse unit_amount stripe now ctx [p1, p1, p2] db)) =
      [?cA, ?pA, ?cB, ?pB,
       sessions_create [''card'']
         [\<lparr>li_price = so_id rA, li_quantity = Some (qty A)\<rparr>,
          \<lparr>li_price = so_id rB, li_quantity = Some (qty B)\<rparr>]
         ''payment''
         (template_url url @ ''/success?session_id={CHECKOUT_SESSION_ID}'')
         (template_url url @ ''/cart'')]"
    unfolding checkout_snd [OF assms(3,4)] found_eq manifest AB(1) loop
    by (simp split: option.splits)
  have found: "Product_find_in db [p1, p2] = [A, B]"
    using found_eq(2) AB(1) by simp
  show ?thesis
    apply (rule conjI [OF manifest])
    apply (rule exI [of _ A], rule exI [of _ B], rule exI [of _ oA], rule exI [of _ rA],
        rule exI [of _ oB], rule exI [of _ rB])
    apply (intro conjI)
          apply (rule found AB(2) oA rA oB rB fin)+
    done
qed

theorem checkout_manifest_line_items_witness:
  "ctx_user signed_in = Some alice
   \<and> checkout_url sample_parse signed_in = Inr (Some ''https://shop.example'')
   \<and> ''p1'' \<noteq> ''p2''
   \<and> Product_findById shop ''p1'' = Some widget \<and> Product_findById shop ''p2'' = Some gadget
   \<and> distinct (map p_id (Product_docs shop))
   \<and> (\<forall>sent n d imgs. stripe_ok sent (products_create n d imgs) \<noteq> None)
   \<and> (\<forall>sent p a c. stripe_ok sent (prices_create p a c) \<noteq> None)
   \<and> productQuantities_of [''p1'', ''p1'', ''p2''] = [(''p1'', 2), (''p2'', 1)]
   \<and> fst (snd (checkout sample_parse sample_unit_amount stripe_ok 1000 signed_in [''p1'', ''p1'', ''p2''] shop)) =
       [products_create ''Widget'' ''A widget'' [''widget.png''],
        prices_create ''prod_'' 800 ''usd'',
        products_create ''Gadget'' ''A gadget'' [''gadget.png''],
        prices_create ''prod_ii'' 2500 ''usd'',
        sessions_create [''card'']
          [\<lparr>li_price = ''price_i'', li_quantity = Some 2\<rparr>,
           \<lparr>li_price = ''price_iii'', li_quantity = Some 1\<rparr>]
          ''payment''
          ''https://shop.example/success?session_id={CHECKOUT_SESSION_ID}''
          ''https://shop.example/cart'']"
proof -
  have h1: "ctx_user signed_in = Some alice"
    by (simp add: signed_in_def)
  have h2: "checkout_url sample_parse signed_in = Inr (Some ''https://shop.example'')"
    by (simp add: checkout_url_def URL_origin_def sample_parse_def signed_in_def)
  have h3: "''p1'' \<noteq> ''p2''"
    by simp
  have h4: "Product_findById shop ''p1'' = Some widget"
    by (simp add: Product_findById_def shop_def widget_def)
  have h5: "Product_findById shop ''p2'' = Some gadget"
    by (simp add: Product_findById_def shop_def widget_def gadget_def)
  have h6: "distinct (map p_id (Product_docs shop))"
    by (simp add: shop_def widget_def gadget_def)
  have h7: "stripe_ok sent (products_create n d imgs) \<noteq> None" for sent n d imgs
    by (simp add: stripe_ok_def)
  have h8: "stripe_ok sent (prices_create p a c) \<noteq> None" for sent p a c
    by (simp add: stripe_ok_def)
  have found: "Product_find_in shop [''p1'', ''p2''] = [widget, gadget]"
    by (simp add: Product_find_in_def shop_def widget_def gadget_def)
  from checkout_manifest_line_items [where stripe = stripe_ok and now = 1000
      and unit_amount = sample_unit_amount,
      OF h1 h2 h3 h4 h5 h6 h7 h8]
  obtain A B oA rA oB rB where m: "productQuantities_of [''p1'', ''p1'', ''p2''] = [(''p1'', 2), (''p2'', 1)]"
    and AB: "Product_find_in shop [''p1'', ''p2''] = [A, B]"
    and calls: "fst (snd (checkout sample_parse sample_unit_amount stripe_ok 1000 signed_in [''p1'', ''p1'', ''p2''] shop)) =
             [products_create (p_name A) (p_description A) [p_imageUrl A],
              prices_create (so_id oA) (sample_unit_amount (case p_salePrice A of
                           None \<Rightarrow> p_price A
                         | Some s \<Rightarrow> if p_onSale A \<and> s \<noteq> 0 then s else p_price A)) ''usd'',
              products_create (p_name B) (p_description B) [p_imageUrl B],
              prices_create (so_id oB) (sample_unit_amount (case p_salePrice B of
                           None \<Rightarrow> p_price B
                         | Some s \<Rightarrow> if p_onSale B \<and> s \<noteq> 0 then s else p_price B)) ''usd'',
              sessions_create [''card'']
                [\<lparr>li_price = so_id rA, li_quantity = Some (if p_id A = ''p1'' then 2 else 1)\<rparr>,
                 \<lparr>li_price = so_id rB, li_quantity = Some (if p_id B = ''p1'' then 2 else 1)\<rparr>]
                ''payment''
                (template_url (Some ''https://shop.example'') @ ''/success?session_id={CHECKOUT_SESSION_ID}'')
                (template_url (Some ''https://shop.example'') @ ''/cart'')]"
    and oA: "stripe_ok [] (products_create (p_name A) (p_description A) [p_imageUrl A]) = Some oA"
    and rA: "stripe_ok [products_create (p_name A) (p_description A) [p_imageUrl A]]
              (prices_create (so_id oA) (sample_unit_amount (case p_salePrice A of
                           None \<Rightarrow> p_price A
                         | Some s \<Rightarrow> if p_onSale A \<and> s \<noteq> 0 then s else p_price A)) ''usd'') = Some rA"
    and oB: "stripe_ok [products_create (p_name A) (p_description A) [p_imageUrl A],
                    prices_create (so_id oA) (sample_unit_amount (case p_salePrice A of
                           None \<Rightarrow> p_price A
                         | Some s \<Rightarrow> if p_onSale A \<and> s \<noteq> 0 then s else p_price A)) ''usd'']
              (products_create (p_name B) (p_description B) [p_imageUrl B]) = Some oB"
    and rB: "stripe_ok [products_create (p_name A) (p_description A) [p_imageUrl A],
                    prices_create (so_id oA) (sample_unit_amount (case p_salePrice A of
                           None \<Rightarrow> p_price A
                         | Some s \<Rightarrow> if p_onSale A \<and> s \<noteq> 0 then s else p_price A)) ''usd'',
                    products_create (p_name B) (p_description B) [p_imageUrl B]]
              (prices_create (so_id oB) (sample_unit_amount (case p_salePrice B of
                           None \<Rightarrow> p_price B
                         | Some s \<Rightarrow> if p_onSale B \<and> s \<noteq> 0 then s else p_price B)) ''usd'') = Some rB"
    by blast
  from AB found have A: "A = widget" and B: "B = gadget" by simp_all
  have ids: "so_id oA = ''prod_''" "so_id rA = ''price_i''" "so_id oB = ''prod_ii''"
    "so_id rB = ''price_iii''"
    using oA rA oB rB by (auto simp: stripe_ok_def)
  have c: "fst (snd (checkout sample_parse sample_unit_amount stripe_ok 1000 signed_in [''p1'', ''p1'', ''p2''] shop)) =
       [products_create ''Widget'' ''A widget'' [''widget.png''],
        prices_create ''prod_'' 800 ''usd'',
        products_create ''Gadget'' ''A gadget'' [''gadget.png''],
        prices_create ''prod_ii'' 2500 ''usd'',
        sessions_create [''card'']
          [\<lparr>li_price = ''price_i'', li_quantity = Some 2\<rparr>,
           \<lparr>li_price = ''price_iii'', li_quantity = Some 1\<rparr>]
          ''payment''
          ''https://shop.example/success?session_id={CHECKOUT_SESSION_ID}''
          ''https://shop.example/cart'']"
    unfolding calls ids A B
    by (simp add: widget_def gadget_def template_url_def sample_unit_amount_def)
  from h1 h2 h3 h4 h5 h6 h7 h8 m c show ?thesis by blast
qed

text \<open>
  C3 as stated fails in three ways. For a product on sale at the sale price zero the unit
  amount sent is that of the list price, 1000 for a price of 10, not 0. A signed-in
  request whose headers carry no \<^verbatim>\<open>referer\<close> ends in the \<^verbatim>\<open>TypeError\<close> of \<^verbatim>\<open>new URL("")\<close>
  before anything is sent. And when the payment client rejects the first product request,
  the call ends there and no line item is submitted.
\<close>

theorem checkout_line_items_counterexample:
  "p_onSale freebie \<and> p_salePrice freebie = Some 0 \<and> p_price freebie = 10
   \<and> Product_findById clearance ''p1'' = Some freebie
   \<and> fst (snd (checkout sample_parse sample_unit_amount stripe_ok 1000 signed_in
          [''p1'', ''p1'', ''p2''] clearance)) =
       [products_create ''Widget'' ''A widget'' [''widget.png''],
        prices_create ''prod_'' 1000 ''usd'',
        products_create ''Gadget'' ''A gadget'' [''gadget.png''],
        prices_create ''prod_ii'' 2500 ''usd'',
        sessions_create [''card'']
          [\<lparr>li_price = ''price_i'', li_quantity = Some 2\<rparr>,
           \<lparr>li_price = ''price_iii'', li_quantity = Some 1\<rparr>]
          ''payment''
          ''https://shop.example/success?session_id={CHECKOUT_SESSION_ID}''
          ''https://shop.example/cart'']
   \<and> ctx_user signed_in_no_referer = Some alice
   \<and> snd (checkout sample_parse sample_unit_amount stripe_ok 1000 signed_in_no_referer
          [''p1'', ''p1'', ''p2''] shop) = ([], Inl (TypeError ''Invalid URL''))
   \<and> snd (checkout sample_parse sample_unit_amount stripe_down 1000 signed_in
          [''p1'', ''p1'', ''p2''] shop) =
       ([products_create ''Widget'' ''A widget'' [''widget.png'']], Inl StripeError)"
  by code_simp

text \<open>
  Where \<^verbatim>\<open>url\<close> can be computed: for an authenticated caller whose user document exists,
  \<^verbatim>\<open>checkout\<close> leaves the database with the order \<open>{products, purchaseDate: now}\<close>
  appended to the user's orders and saved, whatever the payment client answers: the
  database after the call does not depend on the client, so the order is in place before
  and after every request to it. When the client rejects the session creation the call
  fails, and the order stays.
\<close>

lemma checkout_order_persisted:
  assumes "ctx_user ctx = Some cu" and "checkout_url parse ctx = Inr url"
    and "User_findById db (a_id cu) = Some user"
  shows "fst (checkout parse unit_amount stripe now ctx products db) =
           User_save db (user\<lparr>u_orders := u_orders user
                   @ [\<lparr>o_products = products, o_purchaseDate = now\<rparr>]\<rparr>)
       \<and> User_findById (fst (checkout parse unit_amount stripe now ctx products db)) (a_id cu) =
           Some (user\<lparr>u_orders := u_orders user
                   @ [\<lparr>o_products = products, o_purchaseDate = now\<rparr>]\<rparr>)
       \<and> ((\<forall>sent items s c.
              stripe sent (sessions_create [''card''] items ''payment'' s c) = None)
            \<longrightarrow> snd (snd (checkout parse unit_amount stripe now ctx products db)) = Inl StripeError)"
  using assms checkout_fst [OF assms(1,2)] checkout_order_found [OF assms]
    checkout_sessions_rejected [OF assms(1,2)]
  by simp

lemma checkout_order_persisted_example:
  "ctx_user signed_in = Some alice
   \<and> checkout_url sample_parse signed_in = Inr (Some ''https://shop.example'')
   \<and> User_findById shop (a_id alice) = Some alice_doc
   \<and> (\<forall>sent items s c.
          stripe_sessions_down sent (sessions_create [''card''] items ''payment'' s c) = None)
   \<and> User_findById (fst (checkout sample_parse sample_unit_amount stripe_sessions_down 1000 signed_in
          [''p1'', ''p2''] shop)) (a_id alice) =
        Some (alice_doc\<lparr>u_orders := [\<lparr>o_products = [''p1'', ''p2''], o_purchaseDate = 1000\<rparr>]\<rparr>)
   \<and> snd (snd (checkout sample_parse sample_unit_amount stripe_sessions_down 1000 signed_in [''p1'', ''p2''] shop)) =
        Inl StripeError"
proof -
  have h1: "ctx_user signed_in = Some alice"
    by (simp add: signed_in_def)
  have h2: "checkout_url sample_parse signed_in = Inr (Some ''https://shop.example'')"
    by (simp add: checkout_url_def URL_origin_def sample_parse_def signed_in_def)
  have h3: "User_findById shop (a_id alice) = Some alice_doc"
    by (simp add: User_findById_def shop_def alice_def alice_doc_def)
  have h4: "\<forall>sent items s c.
          stripe_sessions_down sent (sessions_create [''card''] items ''payment'' s c) = None"
    by (simp add: stripe_sessions_down_def)
  note inst = checkout_order_persisted [where stripe = stripe_sessions_down and now = 1000
      and products = "[''p1'', ''p2'']", OF h1 h2 h3]
  have a: "User_findById (fst (checkout sample_parse sample_unit_amount stripe_sessions_down 1000 signed_in
          [''p1'', ''p2''] shop)) (a_id alice) =
        Some (alice_doc\<lparr>u_orders := [\<lparr>o_products = [''p1'', ''p2''], o_purchaseDate = 1000\<rparr>]\<rparr>)"
    using inst [THEN conjunct2, THEN conjunct1] by (simp add: alice_doc_def)
  have b: "snd (snd (checkout sample_parse sample_unit_amount stripe_sessions_down 1000 signed_in [''p1'', ''p2''] shop)) =
        Inl StripeError"
    using inst h4 by blast
  from h1 h2 h3 h4 a b show ?thesis by blast
qed

text \<open>
  C4 fails on the code for a signed-in request whose headers carry no \<^verbatim>\<open>referer\<close>:
  \<^verbatim>\<open>new URL("")\<close> throws before the order is built, so the call ends in the \<^verbatim>\<open>TypeError\<close>
  with nothing sent, and the user's order history is as it was, whatever the products,
  the parser and the payment client are. The claim says the order is appended first.
\<close>

theorem checkout_without_referer_no_order:
  "ctx_user signed_in_no_referer = Some alice
   \<and> ctx_headers signed_in_no_referer = Some \<lparr>referer = None\<rparr>
   \<and> User_findById shop (a_id alice) = Some alice_doc
   \<and> checkout parse unit_amount stripe now signed_in_no_referer products shop =
        (shop, [], Inl (TypeError ''Invalid URL''))
   \<and> User_findById (fst (checkout parse unit_amount stripe now signed_in_no_referer products shop))
        (a_id alice) = Some alice_doc
   \<and> u_orders alice_doc = []"
  by (simp add: checkout_def checkout_url_def URL_origin_def signed_in_no_referer_def
      User_findById_def shop_def alice_def alice_doc_def)

text \<open>
  Where \<^verbatim>\<open>url\<close> can be computed, and for an authenticated caller whose user document
  exists: identifiers that no product of the catalog carries are recorded in the order as
  they were given; the requests sent and the outcome are those of the list without them;
  the outcome is never a NOT_FOUND error; and when no identifier of the list is in the
  catalog, the only request is a session creation with no line item, whose answer decides
  the outcome.
\<close>

lemma checkout_unknown_products:
  assumes "ctx_user ctx = Some cu" and "checkout_url parse ctx = Inr url"
    and "User_findById db (a_id cu) = Some user"
  shows "User_findById (fst (checkout parse unit_amount stripe now ctx products db)) (a_id cu) =
           Some (user\<lparr>u_orders := u_orders user
                   @ [\<lparr>o_products = products, o_purchaseDate = now\<rparr>]\<rparr>)
       \<and> snd (checkout parse unit_amount stripe now ctx products db) =
           snd (checkout parse unit_amount stripe now ctx
                  (filter (\<lambda>i. Product_findById db i \<noteq> None) products) db)
       \<and> (\<forall>m. snd (snd (checkout parse unit_amount stripe now ctx products db)) \<noteq>
                  Inl (GraphQLError m ''NOT_FOUND''))
       \<and> ((\<forall>i\<in>set products. Product_findById db i = None) \<longrightarrow>
             snd (checkout parse unit_amount stripe now ctx products db) =
               ([sessions_create [''card''] [] ''payment''
                   (template_url url @ ''/success?session_id={CHECKOUT_SESSION_ID}'')
                   (template_url url @ ''/cart'')],
                (case stripe [] (sessions_create [''card''] [] ''payment''
                        (template_url url @ ''/success?session_id={CHECKOUT_SESSION_ID}'')
                        (template_url url @ ''/cart'')) of
                   None \<Rightarrow> Inl StripeError
                 | Some session \<Rightarrow>
                     Inr \<lparr>cr_sessionId = so_id session, cr_url = so_url session\<rparr>)))"
proof -
  let ?ex = "\<lambda>i. Product_findById db i \<noteq> None"
  let ?known = "filter ?ex products"
  have ex: "?ex (p_id p)" if "p \<in> set (Product_docs db)" for p
    using that by (simp add: Product_findById_def find_in_set_not_None)
  have found: "filter (\<lambda>p. p_id p \<in> set ?known) (Product_docs db) =
               filter (\<lambda>p. p_id p \<in> set products) (Product_docs db)"
    by (rule filter_cong) (use ex in auto)
  have loop: "line_items_loop unit_amount stripe (productQuantities_of ?known)
                (filter (\<lambda>p. p_id p \<in> set products) (Product_docs db)) [] [] =
              line_items_loop unit_amount stripe (productQuantities_of products)
                (filter (\<lambda>p. p_id p \<in> set products) (Product_docs db)) [] []"
    by (rule line_items_loop_cong)
      (auto simp: map_of_productQuantities_of count_list_filter ex)
  have same: "snd (checkout parse unit_amount stripe now ctx products db) =
              snd (checkout parse unit_amount stripe now ctx ?known db)"
    by (simp only: checkout_snd [OF assms(1,2)] found loop)
  have nf: "\<forall>m. snd (snd (checkout parse unit_amount stripe now ctx products db)) \<noteq>
                  Inl (GraphQLError m ''NOT_FOUND'')"
    using checkout_outcome [OF assms(1,2), where stripe = stripe and now = now
        and products = products and db = db and unit_amount = unit_amount] by auto
  have none: "snd (checkout parse unit_amount stripe now ctx products db) =
               ([sessions_create [''card''] [] ''payment''
                   (template_url url @ ''/success?session_id={CHECKOUT_SESSION_ID}'')
                   (template_url url @ ''/cart'')],
                (case stripe [] (sessions_create [''card''] [] ''payment''
                        (template_url url @ ''/success?session_id={CHECKOUT_SESSION_ID}'')
                        (template_url url @ ''/cart'')) of
                   None \<Rightarrow> Inl StripeError
                 | Some session \<Rightarrow>
                     Inr \<lparr>cr_sessionId = so_id session, cr_url = so_url session\<rparr>))"
    if "\<forall>i\<in>set products. Product_findById db i = None"
  proof -
    have "filter (\<lambda>p. p_id p \<in> set products) (Product_docs db) = []"
      using that ex by (fastforce simp: filter_empty_conv)
    then show ?thesis
      by (simp add: checkout_snd [OF assms(1,2)] split: option.splits)
  qed
  from checkout_order_found [OF assms] same nf none show ?thesis
    by blast
qed

lemma checkout_unknown_products_example:
  "ctx_user carol_signed_in = Some carol
   \<and> checkout_url sample_parse carol_signed_in = Inr (Some ''https://shop.example'')
   \<and> User_findById shop (a_id carol) = Some carol_doc
   \<and> Product_findById shop ''p9'' = None \<and> Product_findById shop ''p8'' = None
   \<and> User_findById (fst (checkout sample_parse sample_unit_amount stripe_ok 1000 carol_signed_in
          [''p9'', ''p1'', ''p9''] shop)) (a_id carol) =
        Some (carol_doc\<lparr>u_orders := [\<lparr>o_products = [''p9'', ''p1'', ''p9''],
                                         o_purchaseDate = 1000\<rparr>]\<rparr>)
   \<and> snd (checkout sample_parse sample_unit_amount stripe_ok 1000 carol_signed_in [''p9'', ''p1'', ''p9''] shop) =
        snd (checkout sample_parse sample_unit_amount stripe_ok 1000 carol_signed_in [''p1''] shop)
   \<and> User_findById (fst (checkout sample_parse sample_unit_amount stripe_ok 2000 carol_signed_in
          [''p9'', ''p8''] shop)) (a_id carol) =
        Some (carol_doc\<lparr>u_orders := [\<lparr>o_products = [''p9'', ''p8''], o_purchaseDate = 2000\<rparr>]\<rparr>)
   \<and> snd (checkout sample_parse sample_unit_amount stripe_ok 2000 carol_signed_in [''p9'', ''p8''] shop) =
        ([sessions_create [''card''] [] ''payment''
            ''https://shop.example/success?session_id={CHECKOUT_SESSION_ID}''
            ''https://shop.example/cart''],
         Inr \<lparr>cr_sessionId = ''cs_'', cr_url = ''https://pay.example/session''\<rparr>)"
proof -
  have h1: "ctx_user carol_signed_in = Some carol"
    by (simp add: carol_signed_in_def)
  have h2: "checkout_url sample_parse carol_signed_in = Inr (Some ''https://shop.example'')"
    by (simp add: checkout_url_def URL_origin_def sample_parse_def carol_signed_in_def)
  have h3: "User_findById shop (a_id carol) = Some carol_doc"
    by (simp add: User_findById_def shop_def carol_def alice_doc_def carol_doc_def)
  have h4: "Product_findById shop ''p9'' = None" "Product_findById shop ''p8'' = None"
    by (simp_all add: Product_findById_def shop_def widget_def gadget_def)
  have h5: "\<forall>i\<in>set [''p9'', ''p8'']. Product_findById shop i = None"
    using h4 by simp
  have known: "filter (\<lambda>i. Product_findById shop i \<noteq> None) [''p9'', ''p1'', ''p9''] = [''p1'']"
    by (simp add: Product_findById_def shop_def widget_def gadget_def)
  note i1 = checkout_unknown_products [where stripe = stripe_ok and now = 1000
      and products = "[''p9'', ''p1'', ''p9'']", OF h1 h2 h3]
  note i2 = checkout_unknown_products [where stripe = stripe_ok and now = 2000
      and products = "[''p9'', ''p8'']", OF h1 h2 h3]
  have a: "User_findById (fst (checkout sample_parse sample_unit_amount stripe_ok 1000 carol_signed_in
          [''p9'', ''p1'', ''p9''] shop)) (a_id carol) =
        Some (carol_doc\<lparr>u_orders := [\<lparr>o_products = [''p9'', ''p1'', ''p9''],
                                         o_purchaseDate = 1000\<rparr>]\<rparr>)"
    using i1 [THEN conjunct1] by (simp add: carol_doc_def)
  have b: "snd (checkout sample_parse sample_unit_amount stripe_ok 1000 carol_signed_in [''p9'', ''p1'', ''p9''] shop) =
        snd (checkout sample_parse sample_unit_amount stripe_ok 1000 carol_signed_in [''p1''] shop)"
    using i1 unfolding known by blast
  have c: "User_findById (fst (checkout sample_parse sample_unit_amount stripe_ok 2000 carol_signed_in
          [''p9'', ''p8''] shop)) (a_id carol) =
        Some (carol_doc\<lparr>u_orders := [\<lparr>o_products = [''p9'', ''p8''], o_purchaseDate = 2000\<rparr>]\<rparr>)"
    using i2 [THEN conjunct1] by (simp add: carol_doc_def)
  from i2 h5 have "snd (checkout sample_parse sample_unit_amount stripe_ok 2000 carol_signed_in [''p9'', ''p8''] shop) =
               ([sessions_create [''card''] [] ''payment''
                   (template_url (Some ''https://shop.example'') @ ''/success?session_id={CHECKOUT_SESSION_ID}'')
                   (template_url (Some ''https://shop.example'') @ ''/cart'')],
                (case stripe_ok [] (sessions_create [''card''] [] ''payment''
                        (template_url (Some ''https://shop.example'') @ ''/success?session_id={CHECKOUT_SESSION_ID}'')
                        (template_url (Some ''https://shop.example'') @ ''/cart'')) of
                   None \<Rightarrow> Inl StripeError
                 | Some session \<Rightarrow>
                     Inr \<lparr>cr_sessionId = so_id session, cr_url = so_url session\<rparr>))"
    by blast
  then have d: "snd (checkout sample_parse sample_unit_amount stripe_ok 2000 carol_signed_in [''p9'', ''p8''] shop) =
        ([sessions_create [''card''] [] ''payment''
            ''https://shop.example/success?session_id={CHECKOUT_SESSION_ID}''
            ''https://shop.example/cart''],
         Inr \<lparr>cr_sessionId = ''cs_'', cr_url = ''https://pay.example/session''\<rparr>)"
    by (simp add: template_url_def stripe_ok_def)
  from h1 h2 h3 h4 a b c d show ?thesis by blast
qed

text \<open>
  C10 fails on the code for a signed-in request whose headers carry no \<^verbatim>\<open>referer\<close>: a list
  with identifiers that are not in the catalog aborts like every other list, in the
  \<^verbatim>\<open>TypeError\<close> of \<^verbatim>\<open>new URL("")\<close>, with no order appended and no session requested. The
  claim says the call does not abort and still appends the order.
\<close>

theorem checkout_without_referer_unknown_products:
  "ctx_user signed_in_no_referer = Some alice
   \<and> Product_findById shop ''p9'' = None \<and> Product_findById shop ''p8'' = None
   \<and> checkout parse unit_amount stripe now signed_in_no_referer [''p9'', ''p8''] shop =
        (shop, [], Inl (TypeError ''Invalid URL''))
   \<and> checkout parse unit_amount stripe now signed_in_no_referer [''p9'', ''p1'', ''p9''] shop =
        (shop, [], Inl (TypeError ''Invalid URL''))"
  by (simp add: checkout_def checkout_url_def URL_origin_def signed_in_no_referer_def
      Product_findById_def shop_def widget_def gadget_def)

section \<open>Calls without an authenticated identity\<close>

text \<open>
  Each resolver of \<^verbatim>\<open>Mutation\<close> tests \<^verbatim>\<open>context.user\<close> first: without it the call throws
  \<open>forbiddenException\<close> and the database is untouched.
\<close>

lemma unauthenticated_mutations_forbidden:
  assumes "ctx_user ctx = None"
  shows "addProduct ctx productData new_id db = (db, Inl forbiddenException)"
    and "removeProduct ctx productId db = (db, Inl forbiddenException)"
    and "addStock ctx productId quantity db = (db, Inl forbiddenException)"
    and "removeStock ctx productId quantity db = (db, Inl forbiddenException)"
    and "addCategory ctx categoryData new_id db = (db, Inl forbiddenException)"
    and "removeCategory ctx categoryId db = (db, Inl forbiddenException)"
    and "addProductToCategory ctx productId categoryId db = (db, Inl forbiddenException)"
    and "addReview ctx productId review rating now db = (db, Inl forbiddenException)"
    and "editReview ctx productId review rating db = (db, Inl forbiddenException)"
    and "addBasketItem castObjectId ctx productId quantity now db = (db, Inl forbiddenException)"
    and "removeBasketItem ctx productId db = (db, Inl forbiddenException)"
    and "decrementBasketItem ctx productId db = (db, Inl forbiddenException)"
    and "clearBasket ctx db = (db, Inl forbiddenException)"
  using assms
  by (simp_all add: addProduct_def removeProduct_def addStock_def removeStock_def
      addCategory_def removeCategory_def addProductToCategory_def addReview_def editReview_def
      addBasketItem_def removeBasketItem_def decrementBasketItem_def clearBasket_def)

text \<open>
  \<^verbatim>\<open>checkout\<close> computes \<^verbatim>\<open>url\<close> before it tests \<^verbatim>\<open>context.user\<close>. Without an identity it
  sends nothing and leaves the database untouched; the error is
  \<^verbatim>\<open>Error("User not authenticated")\<close> when \<^verbatim>\<open>url\<close> could be computed, and otherwise the
  \<^verbatim>\<open>TypeError\<close> of \<^verbatim>\<open>new URL\<close>.
\<close>

lemma unauthenticated_checkout:
  assumes "ctx_user ctx = None"
  shows "checkout parse unit_amount stripe now ctx products db =
           (db, [], (case checkout_url parse ctx of
                       Inl e \<Rightarrow> Inl e
                     | Inr url \<Rightarrow> Inl (Error ''User not authenticated'')))"
  using assms by (simp add: checkout_def split: sum.splits)

lemma checkout_url_error:
  "checkout_url parse ctx = Inl e \<Longrightarrow> e = TypeError ''Invalid URL''"
  by (auto simp: checkout_url_def URL_origin_def split: option.splits if_splits)

text \<open>
  C6 fails on \<^verbatim>\<open>checkout\<close>. A request without an identity whose headers carry no
  \<^verbatim>\<open>referer\<close> makes \<^verbatim>\<open>new URL("")\<close> throw before the authentication check is reached: the
  call ends in the \<^verbatim>\<open>TypeError\<close>, which is neither the Forbidden nor the Unauthenticated
  error, whatever the parser, the payment client and the database are. Nothing is sent and
  the database is unchanged.
\<close>

theorem checkout_unauthenticated_without_referer:
  "ctx_user anonymous = None \<and> ctx_headers anonymous = Some \<lparr>referer = None\<rparr>
   \<and> checkout parse unit_amount stripe now anonymous products db = (db, [], Inl (TypeError ''Invalid URL''))"
  by (simp add: checkout_def checkout_url_def URL_origin_def anonymous_def)

end
